theory Spec2Isabelle
  imports Main
begin

section \<open>Values, log entries and the host environment\<close>

text \<open>
  The inspector (\<^verbatim>\<open>src/ts/index.ts\<close>) is a browser script: a log interceptor that wraps
  \<^verbatim>\<open>console.log\<close>, \<^verbatim>\<open>console.error\<close> and \<^verbatim>\<open>console.warn\<close>, and one \<^verbatim>\<open>Inspector\<close> object
  that renders a panel for the element under inspection. The embedding threads one
  record through every operation: the module's \<^verbatim>\<open>logs\<close>, the fields of the
  \<^verbatim>\<open>Inspector\<close> instance, the attributes of the panel element \<^verbatim>\<open>this.window\<close>, and the
  parts of the browser the code reads or writes.

  A JavaScript value that reaches a logging channel. \<open>Obj\<close> carries the text the object
  converts to inside a template literal; a symbol (\<open>Sym\<close>, with its description) and an
  object without a string conversion (\<open>Bare\<close>, such as \<^verbatim>\<open>Object.create(null)\<close>) have no such
  text.
\<close>

datatype jsval =
  Undefined | Null | Bool bool | Num int | Str string | Obj string | Sym string | Bare

text \<open>The three wrapped channels: \<^verbatim>\<open>console.log\<close>, \<^verbatim>\<open>console.error\<close>, \<^verbatim>\<open>console.warn\<close>.\<close>

datatype channel = ChLog | ChError | ChWarn

text \<open>
  An entry \<^verbatim>\<open>{ ts, data }\<close> of \<^verbatim>\<open>logs.general\<close>. Timestamps are readings of
  \<^verbatim>\<open>performance.now()\<close>, kept as integer clock ticks.
\<close>

record log_entry =
  ts :: int
  data :: jsval

text \<open>The performance timeline: marks, measures, and entries of any other type.\<close>

datatype entry_type = Mark | Measure | Other

record perf_entry =
  entryName :: string
  entryType :: entry_type
  startTime :: int
  duration :: int

text \<open>
  A DOM element as far as the program observes it: the node name, whether it is an SVG
  element (the \<^verbatim>\<open>contextmenu\<close> listener casts any target to \<^verbatim>\<open>HTMLElement\<close>), the content
  attributes, the markup of its children, what its parent is, and the own property named
  by the empty string, which the disabled fields of the panel would assign.
\<close>

datatype parent = NoParent | DocumentParent | ElementParent

record element =
  nodeName :: string
  svg :: bool
  attrs :: "(string \<times> string) list"
  inner :: string
  parent :: parent
  emptyProp :: "string option"

text \<open>The argument \<^verbatim>\<open>position: { x, y }\<close>; a coordinate read from an event without
  \<^verbatim>\<open>pageX\<close>/\<^verbatim>\<open>pageY\<close> (a change event) is \<^verbatim>\<open>undefined\<close>, here \<open>None\<close>.\<close>

record position =
  posX :: "int option"
  posY :: "int option"

text \<open>What the handlers read from an event: \<^verbatim>\<open>event.target.value\<close>, \<^verbatim>\<open>event.pageX\<close>,
  \<^verbatim>\<open>event.pageY\<close>.\<close>

record ui_event =
  targetValue :: string
  pageX :: "int option"
  pageY :: "int option"

record state =
  \<comment> \<open>module level: \<^verbatim>\<open>logs.general\<close>, and what the original channels \<^verbatim>\<open>logs.f\<close> received\<close>
  general :: "log_entry list"
  consoleOut :: "(channel \<times> jsval) list"
  \<comment> \<open>host: \<^verbatim>\<open>performance\<close>, storage, cookie, attributes of \<^verbatim>\<open>document.documentElement\<close>,
      and whatever else of the page bears on computed styles (style sheets, hover,
      layout), as a value nothing is known about\<close>
  clock :: int
  timeline :: "perf_entry list"
  localStorage :: "(string \<times> string) list"
  sessionStorage :: "(string \<times> string) list"
  cookie :: string
  rootDataMode :: "string option"
  rootSideMode :: bool
  styling :: nat
  \<comment> \<open>the \<^verbatim>\<open>Inspector\<close> instance\<close>
  active :: bool
  sid :: string
  selected :: "element option"
  tab :: string
  \<comment> \<open>the panel \<^verbatim>\<open>this.window\<close>: class \<^verbatim>\<open>off\<close>, attribute \<^verbatim>\<open>side-mode\<close>, inline position, and
      the markup last assigned to its \<^verbatim>\<open>innerHTML\<close>\<close>
  winOff :: bool
  winSideMode :: bool
  winLeft :: string
  winTop :: string
  winHTML :: string

text \<open>
  What page code and the user can do to the state apart from the inspector: call a
  logging channel, let time pass, place a performance mark, reject a promise nobody
  handles, raise an uncaught error, change what styles compute to.
\<close>

datatype page_event =
  Log channel jsval
| Tick nat
| PerfMark string
| Rejection jsval
| Uncaught jsval
| Restyle nat

text \<open>
  The facilities of the browser the program calls and does not define: number to string
  conversion, the escaping done by \<^verbatim>\<open>new Option(text).innerHTML\<close>, the serialisation behind
  \<^verbatim>\<open>outerHTML\<close> (of node name, attributes and children), \<^verbatim>\<open>getComputedStyle\<close> (the
  properties in index order, each with its value, for an element on the page as it is),
  \<^verbatim>\<open>JSON.stringify\<close> of a spread storage area, and the evaluation of a typed script, which
  yields what the script does as page code and the value it throws, if any. Whether the
  script runs in strict mode decides what an assignment to a property without a setter
  does.
\<close>

record host =
  showNum :: "int \<Rightarrow> string"
  escapeText :: "string \<Rightarrow> string"
  serialize :: "string \<Rightarrow> (string \<times> string) list \<Rightarrow> string \<Rightarrow> string"
  computedStyle :: "state \<Rightarrow> element \<Rightarrow> (string \<times> string) list"
  stringify :: "(string \<times> string) list \<Rightarrow> string"
  script :: "string \<Rightarrow> state \<Rightarrow> page_event list \<times> jsval option"
  strictMode :: bool

datatype error = SyntaxError | TypeError | NoModificationAllowedError | ScriptError jsval

text \<open>A handler either returns or throws; either way the state it reached remains.\<close>

datatype result = Returned state | Thrown error state

abbreviation sq :: string where
  "sq \<equiv> [CHR 0x27]"

section \<open>The log interceptor\<close>

text \<open>\<^verbatim>\<open>logs.general.push({ ts: performance.now(), data })\<close>\<close>

definition push_log :: "jsval \<Rightarrow> state \<Rightarrow> state" where
  "push_log d s = s\<lparr>general := general s @ [\<lparr>ts = clock s, data = d\<rparr>]\<rparr>"

text \<open>\<^verbatim>\<open>logs.f.log.apply(console, [data])\<close> and its two siblings: the original channel
  receives the payload.\<close>

definition forward :: "channel \<Rightarrow> jsval \<Rightarrow> state \<Rightarrow> state" where
  "forward c d s = s\<lparr>consoleOut := consoleOut s @ [(c, d)]\<rparr>"

definition console_log :: "jsval \<Rightarrow> state \<Rightarrow> state" where
  "console_log d s = (if d = Undefined then s else push_log d (forward ChLog d s))"

definition console_error :: "jsval \<Rightarrow> state \<Rightarrow> state" where
  "console_error d s = (if d = Undefined then s else push_log d (forward ChError d s))"

definition console_warn :: "jsval \<Rightarrow> state \<Rightarrow> state" where
  "console_warn d s = (if d = Undefined then s else push_log d (forward ChWarn d s))"

text \<open>A call of the wrapped channel \<open>c\<close>.\<close>

fun console_call :: "channel \<Rightarrow> jsval \<Rightarrow> state \<Rightarrow> state" where
  "console_call ChLog d s = console_log d s"
| "console_call ChError d s = console_error d s"
| "console_call ChWarn d s = console_warn d s"

text \<open>The listeners for \<^verbatim>\<open>unhandledrejection\<close> (payload \<^verbatim>\<open>event.reason\<close>) and \<^verbatim>\<open>error\<close>
  (payload \<^verbatim>\<open>event.error\<close>); neither checks the payload.\<close>

definition on_unhandledrejection :: "jsval \<Rightarrow> state \<Rightarrow> state" where
  "on_unhandledrejection reason s = push_log reason s"

definition on_error :: "jsval \<Rightarrow> state \<Rightarrow> state" where
  "on_error err s = push_log err s"

section \<open>The performance timeline\<close>

text \<open>\<^verbatim>\<open>performance.now()\<close> is monotonic: time only moves forward.\<close>

definition tick :: "nat \<Rightarrow> state \<Rightarrow> state" where
  "tick d s = s\<lparr>clock := clock s + int d\<rparr>"

definition performance_mark :: "string \<Rightarrow> state \<Rightarrow> state" where
  "performance_mark n s =
     s\<lparr>timeline := timeline s @
        [\<lparr>entryName = n, entryType = Mark, startTime = clock s, duration = 0\<rparr>]\<rparr>"

text \<open>The time a mark name stands for: the start time of the most recent mark of that
  name, if there is one.\<close>

definition mark_time :: "string \<Rightarrow> perf_entry list \<Rightarrow> int option" where
  "mark_time n buf =
     (case rev (filter (\<lambda>e. entryType e = Mark \<and> entryName e = n) buf) of
        [] \<Rightarrow> None
      | e # _ \<Rightarrow> Some (startTime e))"

text \<open>\<^verbatim>\<open>performance.measure(name, startMark, endMark)\<close>: a \<^verbatim>\<open>SyntaxError\<close> when either
  mark is missing, else a measure from the start mark lasting to the end mark.\<close>

definition performance_measure :: "string \<Rightarrow> string \<Rightarrow> string \<Rightarrow> state \<Rightarrow> error + state" where
  "performance_measure n startMark endMark s =
     (case mark_time endMark (timeline s) of
        None \<Rightarrow> Inl SyntaxError
      | Some e \<Rightarrow>
          (case mark_time startMark (timeline s) of
             None \<Rightarrow> Inl SyntaxError
           | Some b \<Rightarrow>
               Inr (s\<lparr>timeline := timeline s @
                 [\<lparr>entryName = n, entryType = Measure, startTime = b, duration = e - b\<rparr>]\<rparr>)))"

text \<open>\<^verbatim>\<open>performance.getEntriesByName(name)\<close>: the entries of that name, in order of start
  time.\<close>

definition getEntriesByName :: "string \<Rightarrow> perf_entry list \<Rightarrow> perf_entry list" where
  "getEntriesByName n buf = sort_key startTime (filter (\<lambda>e. entryName e = n) buf)"

definition clearMarks :: "state \<Rightarrow> state" where
  "clearMarks s = s\<lparr>timeline := filter (\<lambda>e. entryType e \<noteq> Mark) (timeline s)\<rparr>"

definition clearMeasures :: "state \<Rightarrow> state" where
  "clearMeasures s = s\<lparr>timeline := filter (\<lambda>e. entryType e \<noteq> Measure) (timeline s)\<rparr>"

section \<open>Page code\<close>

fun page_step :: "page_event \<Rightarrow> state \<Rightarrow> state" where
  "page_step (Log c d) s = console_call c d s"
| "page_step (Tick n) s = tick n s"
| "page_step (PerfMark n) s = performance_mark n s"
| "page_step (Rejection r) s = on_unhandledrejection r s"
| "page_step (Uncaught e) s = on_error e s"
| "page_step (Restyle n) s = s\<lparr>styling := n\<rparr>"

fun page_run :: "page_event list \<Rightarrow> state \<Rightarrow> state" where
  "page_run [] s = s"
| "page_run (e # es) s = page_run es (page_step e s)"

section \<open>Elements\<close>

text \<open>\<^verbatim>\<open>element.id\<close> reads the attribute \<^verbatim>\<open>id\<close>, the empty string when the attribute is
  absent; so does \<^verbatim>\<open>element.className\<close> with the attribute \<^verbatim>\<open>class\<close> on an HTML element.
  On an SVG element \<^verbatim>\<open>className\<close> is an \<^verbatim>\<open>SVGAnimatedString\<close> object, which a template prints
  as such. Assigning an attribute sets it in place when it is there and at the end when
  it is not.\<close>

definition elem_id :: "element \<Rightarrow> string" where
  "elem_id e = (case map_of (attrs e) ''id'' of None \<Rightarrow> [] | Some v \<Rightarrow> v)"

definition classAttr :: "element \<Rightarrow> string" where
  "classAttr e = (case map_of (attrs e) ''class'' of None \<Rightarrow> [] | Some v \<Rightarrow> v)"

definition className :: "element \<Rightarrow> string" where
  "className e = (if svg e then ''[object SVGAnimatedString]'' else classAttr e)"

fun setAttribute :: "string \<Rightarrow> string \<Rightarrow> (string \<times> string) list \<Rightarrow> (string \<times> string) list" where
  "setAttribute n v [] = [(n, v)]"
| "setAttribute n v ((m, w) # as) =
     (if m = n then (n, v) # as else (m, w) # setAttribute n v as)"

definition outerHTML :: "host \<Rightarrow> element \<Rightarrow> string" where
  "outerHTML h e = serialize h (nodeName e) (attrs e) (inner e)"

text \<open>\<^verbatim>\<open>classList\<close>: the class attribute split at ASCII whitespace.\<close>

definition is_ws :: "char \<Rightarrow> bool" where
  "is_ws c = (c \<in> set [CHR 0x20, CHR 0x09, CHR 0x0A, CHR 0x0C, CHR 0x0D])"

fun tokens :: "string \<Rightarrow> string \<Rightarrow> string list" where
  "tokens cur [] = (if cur = [] then [] else [cur])"
| "tokens cur (c # cs) =
     (if is_ws c then (if cur = [] then tokens [] cs else cur # tokens [] cs)
      else tokens (cur @ [c]) cs)"

definition classList :: "element \<Rightarrow> string list" where
  "classList e = tokens [] (classAttr e)"

text \<open>
  The fields of the panel name the property that \<^verbatim>\<open>ch\<close> assigns: \<^verbatim>\<open>'id'\<close>,
  \<^verbatim>\<open>'className'\<close>, \<^verbatim>\<open>'outerHTML'\<close>, and \<^verbatim>\<open>''\<close> on the disabled fields.
\<close>

datatype field = FieldId | FieldClassName | FieldOuterHTML | FieldEmpty

text \<open>
  \<^verbatim>\<open>(this.selected as any)[dataName] = value\<close>. \<^verbatim>\<open>className\<close> of an SVG element has no
  setter: the assignment throws in strict mode and does nothing otherwise. Assigning
  \<^verbatim>\<open>outerHTML\<close> follows the DOM: nothing happens to an element without a parent, the
  assignment throws when the parent is the document, and otherwise the element is
  replaced in its parent by the parsed markup: the object assigned to is removed from the
  tree, with its own name, attributes and children as they were.
\<close>

fun assign :: "host \<Rightarrow> field \<Rightarrow> string \<Rightarrow> element \<Rightarrow> error + element" where
  "assign h FieldId v e = Inr (e\<lparr>attrs := setAttribute ''id'' v (attrs e)\<rparr>)"
| "assign h FieldClassName v e =
     (if svg e then (if strictMode h then Inl TypeError else Inr e)
      else Inr (e\<lparr>attrs := setAttribute ''class'' v (attrs e)\<rparr>))"
| "assign h FieldOuterHTML v e =
     (case parent e of
        NoParent \<Rightarrow> Inr e
      | DocumentParent \<Rightarrow> Inl NoModificationAllowedError
      | ElementParent \<Rightarrow> Inr (e\<lparr>parent := NoParent\<rparr>))"
| "assign h FieldEmpty v e = Inr (e\<lparr>emptyProp := Some v\<rparr>)"

section \<open>Rendering the panel\<close>

text \<open>A value inside a template literal: its text, or the \<^verbatim>\<open>TypeError\<close> of a value that
  cannot be converted to a string.\<close>

fun toString :: "host \<Rightarrow> jsval \<Rightarrow> error + string" where
  "toString h Undefined = Inr ''undefined''"
| "toString h Null = Inr ''null''"
| "toString h (Bool b) = Inr (if b then ''true'' else ''false'')"
| "toString h (Num n) = Inr (showNum h n)"
| "toString h (Str t) = Inr t"
| "toString h (Obj t) = Inr t"
| "toString h (Sym t) = Inl TypeError"
| "toString h Bare = Inl TypeError"

text \<open>The loop over \<^verbatim>\<open>computed\<close>: one line \<^verbatim>\<open>property: value;\<close> for each property.\<close>

fun style_text :: "(string \<times> string) list \<Rightarrow> string" where
  "style_text [] = []"
| "style_text ((p, v) # ps) = p @ '': '' @ v @ '';\<newline>'' @ style_text ps"

text \<open>The loop over \<^verbatim>\<open>logs.general\<close>: one line for each entry; it stops with the error
  of the first payload that has no text.\<close>

fun logs_markup :: "host \<Rightarrow> log_entry list \<Rightarrow> error + string" where
  "logs_markup h [] = Inr []"
| \<open>logs_markup h (l # ls) =
     (case toString h (data l) of
        Inl err \<Rightarrow> Inl err
      | Inr t \<Rightarrow>
          (case logs_markup h ls of
             Inl err \<Rightarrow> Inl err
           | Inr rest \<Rightarrow>
               Inr (''<div class="inspect.element">{'' @ showNum h (ts l) @ ''} '' @ t @
                 ''</div>'' @ rest)))\<close>

text \<open>The markup common to all tabs: heading, tab buttons, side mode checkbox.\<close>

definition panel_head :: "state \<Rightarrow> element \<Rightarrow> string" where
  \<open>panel_head s element =
     ''\<newline>'' @
     ''        <!-- primary window -->\<newline>'' @
     ''        <h2>'' @
     nodeName element @
     '' #'' @
     elem_id element @
     '' .'' @
     className element @
     ''</h2>\<newline>'' @
     ''\<newline>'' @
     ''        <p>Press ESCAPE to disable.</p><br>\<newline>'' @
     ''\<newline>'' @
     ''        <!-- tabs -->\<newline>'' @
     ''        <div class="inspect.element" style="display: flex; flex-wrap: wrap; justify-content: center;">\<newline>'' @
     ''            <button onclick="window['' @ sq @
     sid s @
     sq @ ''].sp(event, '' @ sq @ ''display'' @ sq @ '')" class="inspect.element.tab '' @
     (if tab s = ''display'' then ''active'' else []) @
     ''">Display</button>\<newline>'' @
     ''\<newline>'' @
     ''            <button onclick="window['' @ sq @
     sid s @
     sq @ ''].sp(event, '' @ sq @ ''console'' @ sq @ '')" class="inspect.element.tab '' @
     (if tab s = ''console'' then ''active'' else []) @
     ''">Console</button>\<newline>'' @
     ''\<newline>'' @
     ''            <button onclick="window['' @ sq @
     sid s @
     sq @ ''].sp(event, '' @ sq @ ''storage'' @ sq @ '')" class="inspect.element.tab '' @
     (if tab s = ''storage'' then ''active'' else []) @
     ''">Storage</button>\<newline>'' @
     ''\<newline>'' @
     ''            <button onclick="window['' @ sq @
     sid s @
     sq @ ''].sp(event, '' @ sq @ ''performance'' @ sq @ '')" class="inspect.element.tab '' @
     (if tab s = ''performance'' then ''active'' else []) @
     ''">Performance</button>\<newline>'' @
     ''\<newline>'' @
     ''            <button onclick="window['' @ sq @
     sid s @
     sq @ ''].sp(event, '' @ sq @ ''reload'' @ sq @ '')" class="inspect.element.tab">Refresh</button>\<newline>'' @
     ''        </div>\<newline>'' @
     ''\<newline>'' @
     ''        <!-- extra menu -->\<newline>'' @
     ''        <div class="inspect.element">Side Mode: <input type="checkbox" rows="5" cols="35" \<newline>'' @
     ''            onchange="window['' @ sq @
     sid s @
     sq @ ''].sp(event, '' @ sq @ ''sideMode'' @ sq @ '')" '' @
     (if winSideMode s then ''checked'' else []) @
     ''>\<newline>'' @
     ''        </div>\<newline>'' @
     ''        \<newline>'' @
     ''        <!-- tab -->\<newline>'' @
     ''        ''\<close>

definition display_tab :: "host \<Rightarrow> state \<Rightarrow> element \<Rightarrow> string \<Rightarrow> string" where
  \<open>display_tab h s element style =
     ''\<newline>'' @
     ''                <!-- display tab -->\<newline>'' @
     ''                <div class="inspect.element">nodeName: '' @
     nodeName element @
     ''</div>\<newline>'' @
     ''        \<newline>'' @
     ''                <div class="inspect.element">ID: <input \<newline>'' @
     ''                    onchange="window['' @ sq @
     sid s @
     sq @ ''].ch(event, '' @ sq @ ''id'' @ sq @ '')" \<newline>'' @
     ''                    value="'' @
     elem_id element @
     ''">\<newline>'' @
     ''                </div>\<newline>'' @
     ''                \<newline>'' @
     ''                <div class="inspect.element">className: <input \<newline>'' @
     ''                    onchange="window['' @ sq @
     sid s @
     sq @ ''].ch(event, '' @ sq @ ''className'' @ sq @ '')" \<newline>'' @
     ''                    value="'' @
     className element @
     ''">\<newline>'' @
     ''                </div>\<newline>'' @
     ''\<newline>'' @
     ''                <div class="inspect.element">outerHTML: <textarea rows="5" cols="35" \<newline>'' @
     ''                    onchange="window['' @ sq @
     sid s @
     sq @ ''].ch(event, '' @ sq @ ''outerHTML'' @ sq @ '')">\<newline>'' @
     ''                        '' @
     escapeText h (outerHTML h element) @
     ''\<newline>'' @
     ''                    </textarea>\<newline>'' @
     ''                </div>\<newline>'' @
     ''                \<newline>'' @
     ''                <div class="inspect.element">computed: <textarea rows="5" cols="35" \<newline>'' @
     ''                    onchange="window['' @ sq @
     sid s @
     sq @ ''].ch(event, '' @ sq @ sq @ '')" disabled>\<newline>'' @
     ''                        '' @
     style @
     ''\<newline>'' @
     ''                    </textarea>\<newline>'' @
     ''                </div>''\<close>

definition console_tab :: "state \<Rightarrow> string \<Rightarrow> string" where
  \<open>console_tab s logsText =
     ''\<newline>'' @
     ''                <!-- console tab -->\<newline>'' @
     ''                '' @
     logsText @
     ''\<newline>'' @
     ''\<newline>'' @
     ''                <div class="inspect.element">Run JavaScript: <textarea rows="5" cols="35" \<newline>'' @
     ''                    onchange="window['' @ sq @
     sid s @
     sq @ ''].sp(event, '' @ sq @ ''runjs'' @ sq @ '')"></textarea>\<newline>'' @
     ''                </div>\<newline>'' @
     ''                ''\<close>

definition storage_tab :: "host \<Rightarrow> state \<Rightarrow> string" where
  \<open>storage_tab h s =
     ''\<newline>'' @
     ''                <!-- storage tab -->\<newline>'' @
     ''                <div class="inspect.element">localStorage: <textarea rows="5" cols="35" \<newline>'' @
     ''                    onchange="window['' @ sq @
     sid s @
     sq @ ''].ch(event, '' @ sq @ sq @ '')" disabled>\<newline>'' @
     ''                        '' @
     stringify h (localStorage s) @
     ''\<newline>'' @
     ''                    </textarea>\<newline>'' @
     ''                </div>\<newline>'' @
     ''                \<newline>'' @
     ''                <div class="inspect.element">sessionStorage: <textarea rows="5" cols="35" \<newline>'' @
     ''                    onchange="window['' @ sq @
     sid s @
     sq @ ''].ch(event, '' @ sq @ sq @ '')" disabled>\<newline>'' @
     ''                        '' @
     stringify h (sessionStorage s) @
     ''\<newline>'' @
     ''                    </textarea>\<newline>'' @
     ''                </div>\<newline>'' @
     ''                \<newline>'' @
     ''                <div class="inspect.element">cookie: <textarea rows="5" cols="35" \<newline>'' @
     ''                    onchange="window['' @ sq @
     sid s @
     sq @ ''].ch(event, '' @ sq @ sq @ '')" disabled>\<newline>'' @
     ''                        '' @
     cookie s @
     ''\<newline>'' @
     ''                    </textarea>\<newline>'' @
     ''                </div>''\<close>

definition performance_tab :: "state \<Rightarrow> string" where
  \<open>performance_tab s =
     ''\<newline>'' @
     ''                <!-- performance tab -->\<newline>'' @
     ''                <div class="inspect.element">\<newline>'' @
     ''                    <b>Timestamp Configuration</b>\<newline>'' @
     ''                    '' @
     (if length (getEntriesByName ''ins-mark'' (timeline s)) \<noteq> 0
       then ''Mark already active! Click "Stamp" below to end and measure mark.''
       else []) @
     ''\<newline>'' @
     ''                </div>\<newline>'' @
     ''\<newline>'' @
     ''                <div class="inspect.element">\<newline>'' @
     ''                    <button onclick="window['' @ sq @
     sid s @
     sq @ ''].sp(event, '' @ sq @ ''mark'' @ sq @ '')">Mark</button>\<newline>'' @
     ''                    <button onclick="window['' @ sq @
     sid s @
     sq @ ''].sp(event, '' @ sq @ ''stamp'' @ sq @ '')">Stamp</button>\<newline>'' @
     ''                </div>\<newline>'' @
     ''                ''\<close>

text \<open>The conditional chain on \<^verbatim>\<open>this.tab\<close>; its last alternative is \<^verbatim>\<open>undefined\<close>, which
  the enclosing template literal converts to text.\<close>

definition tab_markup :: "host \<Rightarrow> state \<Rightarrow> element \<Rightarrow> string \<Rightarrow> string \<Rightarrow> string" where
  "tab_markup h s element style logsText =
     (if tab s = ''display'' then display_tab h s element style
      else if tab s = ''console'' then console_tab s logsText
      else if tab s = ''storage'' then storage_tab h s
      else if tab s = ''performance'' then performance_tab s
      else ''undefined'')"

definition render :: "host \<Rightarrow> state \<Rightarrow> element \<Rightarrow> string \<Rightarrow> string \<Rightarrow> string" where
  "render h s element style logsText = panel_head s element @ tab_markup h s element style logsText"

section \<open>The Inspector\<close>

text \<open>
  The constructor on a page in state \<open>w\<close>: inactive, on the display tab, nothing
  selected, the panel created hidden (class \<^verbatim>\<open>off\<close>) with the whitespace of its template
  as content and no inline position; the last two statements toggle the attribute
  \<^verbatim>\<open>side-mode\<close> of the new panel and \<^verbatim>\<open>inspector-side-mode\<close> of the document root.
\<close>

definition Inspector_new :: "string \<Rightarrow> state \<Rightarrow> state" where
  "Inspector_new uuid w =
     w\<lparr>active := False,
       sid := ''inspector-'' @ uuid,
       tab := ''display'',
       selected := None,
       winOff := True,
       winLeft := [],
       winTop := [],
       winHTML := ''\<newline>        '',
       winSideMode := True,
       rootSideMode := \<not> rootSideMode w\<rparr>"

definition toggle :: "state \<Rightarrow> state" where
  "toggle s =
     s\<lparr>rootDataMode := (if rootDataMode s = Some ''inspect'' then None else Some ''inspect''),
       active := \<not> active s,
       winOff := \<not> winOff s,
       rootSideMode := \<not> rootSideMode s,
       winSideMode := \<not> winSideMode s\<rparr>"

text \<open>
  \<^verbatim>\<open>this.window.style.left = `${position.x}px`\<close>: a number gives a length; an undefined
  coordinate gives the text \<^verbatim>\<open>undefinedpx\<close>, which is no length, and the style keeps the
  value it had.
\<close>

definition style_assign :: "host \<Rightarrow> int option \<Rightarrow> string \<Rightarrow> string" where
  "style_assign h v old = (case v of None \<Rightarrow> old | Some n \<Rightarrow> showNum h n @ ''px'')"

text \<open>The first two statements of \<^verbatim>\<open>inspectElement\<close> past its guard: position the panel.\<close>

definition move_panel :: "host \<Rightarrow> position \<Rightarrow> state \<Rightarrow> state" where
  "move_panel h position s =
     s\<lparr>winLeft := style_assign h (posX position) (winLeft s),
       winTop := style_assign h (posY position) (winTop s)\<rparr>"

text \<open>
  \<^verbatim>\<open>inspectElement\<close>. The loop over the log comes after the panel is positioned and before
  the markup and \<^verbatim>\<open>this.selected\<close> are assigned, so a payload without text leaves the
  panel moved and nothing else changed. The handlers the function clears belong to the
  markup it then replaces, and the class it adds to the new markup marks elements inside
  the panel; events from inside the panel reach the document with the panel's host
  element as target.
\<close>

definition inspectElement :: "host \<Rightarrow> element \<Rightarrow> position \<Rightarrow> state \<Rightarrow> result" where
  "inspectElement h element position s =
     (if \<not> active s then Returned s
      else
        let s1 = move_panel h position s;
            style = style_text (computedStyle h s1 element)
        in case logs_markup h (general s1) of
             Inl err \<Rightarrow> Thrown err s1
           | Inr logsText \<Rightarrow>
               Returned (s1\<lparr>winHTML := render h s1 element style logsText,
                 selected := Some element\<rparr>))"

text \<open>The \<^verbatim>\<open>contextmenu\<close> listener of the document.\<close>

definition on_contextmenu :: "host \<Rightarrow> element \<Rightarrow> position \<Rightarrow> state \<Rightarrow> result" where
  "on_contextmenu h target pos s =
     (if \<not> active s \<or> ''inspect.core'' \<in> set (classList target) \<or> elem_id target = sid s
      then Returned s
      else inspectElement h target pos s)"

text \<open>The \<^verbatim>\<open>keydown\<close> listener of the document.\<close>

definition on_keydown :: "string \<Rightarrow> state \<Rightarrow> state" where
  "on_keydown key s =
     (if \<not> active s then s
      else if key = ''Escape'' then toggle s
      else s)"

definition event_position :: "ui_event \<Rightarrow> position" where
  "event_position event = \<lparr>posX = pageX event, posY = pageY event\<rparr>"

text \<open>\<^verbatim>\<open>ch\<close>: assign the property, then inspect again.\<close>

definition ch :: "host \<Rightarrow> ui_event \<Rightarrow> field \<Rightarrow> state \<Rightarrow> result" where
  "ch h event dataName s =
     (case selected s of
        None \<Rightarrow> Returned s
      | Some e \<Rightarrow>
          (case assign h dataName (targetValue event) e of
             Inl err \<Rightarrow> Thrown err s
           | Inr e' \<Rightarrow> inspectElement h e' (event_position event) (s\<lparr>selected := Some e'\<rparr>)))"

text \<open>The text logged by \<^verbatim>\<open>stamp\<close>: \<^verbatim>\<open>JSON.stringify\<close> of the start and the duration of
  the measure, each followed by \<^verbatim>\<open>ms\<close>.\<close>

definition stamp_result :: "host \<Rightarrow> perf_entry \<Rightarrow> string" where
  \<open>stamp_result h r =
     ''STAMP RESULT: {"start":"'' @ showNum h (startTime r) @ ''ms","duration":"'' @
     showNum h (duration r) @ ''ms"}''\<close>

text \<open>Case \<^verbatim>\<open>"stamp"\<close> of \<^verbatim>\<open>sp\<close>; reading \<^verbatim>\<open>results[0]\<close> of an empty array throws.\<close>

definition stamp :: "host \<Rightarrow> state \<Rightarrow> result" where
  "stamp h s =
     (let s1 = performance_mark ''ins-end-mark'' s in
      case performance_measure ''ins-s-to-e-measure'' ''ins-mark'' ''ins-end-mark'' s1 of
        Inl err \<Rightarrow> Thrown err s1
      | Inr s2 \<Rightarrow>
          (case getEntriesByName ''ins-s-to-e-measure'' (timeline s2) of
             [] \<Rightarrow> Thrown TypeError s2
           | r # _ \<Rightarrow>
               let s3 = console_log (Str (stamp_result h r)) s2;
                   s4 = clearMarks s3;
                   s5 = clearMeasures s4
               in Returned (s5\<lparr>tab := ''console''\<rparr>)))"

text \<open>Case \<^verbatim>\<open>"runjs"\<close> of \<^verbatim>\<open>sp\<close>: log the typed text, then run it.\<close>

definition runjs :: "host \<Rightarrow> ui_event \<Rightarrow> state \<Rightarrow> result" where
  "runjs h event s =
     (let v = targetValue event;
          s1 = console_log (Str (''~> '' @ v)) s
      in case script h v s1 of
           (evs, None) \<Rightarrow> Returned (page_run evs s1)
         | (evs, Some x) \<Rightarrow> Thrown (ScriptError x) (page_run evs s1))"

text \<open>The \<^verbatim>\<open>switch\<close> of \<^verbatim>\<open>sp\<close>.\<close>

definition sp_switch :: "host \<Rightarrow> ui_event \<Rightarrow> string \<Rightarrow> state \<Rightarrow> result" where
  "sp_switch h event dataName s =
     (if dataName = ''sideMode'' then
        Returned (s\<lparr>winSideMode := \<not> winSideMode s, rootSideMode := \<not> rootSideMode s\<rparr>)
      else if dataName = ''display'' then Returned (s\<lparr>tab := ''display''\<rparr>)
      else if dataName = ''console'' then Returned (s\<lparr>tab := ''console''\<rparr>)
      else if dataName = ''storage'' then Returned (s\<lparr>tab := ''storage''\<rparr>)
      else if dataName = ''performance'' then Returned (s\<lparr>tab := ''performance''\<rparr>)
      else if dataName = ''runjs'' then runjs h event s
      else if dataName = ''mark'' then Returned (performance_mark ''ins-mark'' s)
      else if dataName = ''stamp'' then stamp h s
      else Returned s)"

text \<open>\<^verbatim>\<open>sp\<close>: nothing without a selection; else the switch, then inspect again. No case
  of the switch assigns \<^verbatim>\<open>this.selected\<close>, so the element inspected again is the one
  tested at the start.\<close>

definition sp :: "host \<Rightarrow> ui_event \<Rightarrow> string \<Rightarrow> state \<Rightarrow> result" where
  "sp h event dataName s =
     (case selected s of
        None \<Rightarrow> Returned s
      | Some e \<Rightarrow>
          (case sp_switch h event dataName s of
             Thrown err s' \<Rightarrow> Thrown err s'
           | Returned s' \<Rightarrow> inspectElement h e (event_position event) s'))"

section \<open>Sessions\<close>

text \<open>
  What happens to a page with an inspector: page code runs, somebody calls the public
  methods \<^verbatim>\<open>toggle\<close> and \<^verbatim>\<open>inspectElement\<close>, the document receives \<^verbatim>\<open>contextmenu\<close> and
  \<^verbatim>\<open>keydown\<close> events, and the handlers in the panel's markup call \<^verbatim>\<open>ch\<close> and \<^verbatim>\<open>sp\<close>.
  An element comes with the event as the page holds it at that moment; from then on the
  state keeps the object \<^verbatim>\<open>this.selected\<close> refers to.
\<close>

datatype event =
  Page page_event
| Toggle
| Inspect element position
| ContextMenu element position
| KeyDown string
| Ch ui_event field
| Sp ui_event string

text \<open>The value an error is thrown as.\<close>

fun error_value :: "error \<Rightarrow> jsval" where
  "error_value SyntaxError = Obj ''SyntaxError''"
| "error_value TypeError = Obj ''TypeError''"
| "error_value NoModificationAllowedError = Obj ''NoModificationAllowedError''"
| "error_value (ScriptError v) = v"

text \<open>An exception that leaves an event handler, or a call nobody catches it from, is
  reported to the window, where the \<^verbatim>\<open>error\<close> listener logs it.\<close>

fun report :: "result \<Rightarrow> state" where
  "report (Returned s) = s"
| "report (Thrown err s) = on_error (error_value err) s"

fun step :: "host \<Rightarrow> event \<Rightarrow> state \<Rightarrow> state" where
  "step h (Page e) s = page_step e s"
| "step h Toggle s = toggle s"
| "step h (Inspect el pos) s = report (inspectElement h el pos s)"
| "step h (ContextMenu el pos) s = report (on_contextmenu h el pos s)"
| "step h (KeyDown key) s = on_keydown key s"
| "step h (Ch ev f) s = report (ch h ev f s)"
| "step h (Sp ev n) s = report (sp h ev n s)"

fun run :: "host \<Rightarrow> event list \<Rightarrow> state \<Rightarrow> state" where
  "run h [] s = s"
| "run h (e # es) s = run h es (step h e s)"

section \<open>A small page for examples\<close>

text \<open>A host with decimal numbers, the usual escaping of text, a plain serialisation and
  a script evaluator that knows two scripts.\<close>

definition digit :: "nat \<Rightarrow> char" where
  "digit n = ''0123456789'' ! n"

function show_nat :: "nat \<Rightarrow> string" where
  "show_nat n = (if n < 10 then [digit n] else show_nat (n div 10) @ [digit (n mod 10)])"
  by pat_completeness auto
termination
  by (relation "measure id") auto

declare show_nat.simps [simp del]

definition show_int :: "int \<Rightarrow> string" where
  "show_int i = (if i < 0 then ''-'' @ show_nat (nat (- i)) else show_nat (nat i))"

definition escape_char :: "char \<Rightarrow> string" where
  "escape_char c =
     (if c = CHR ''&'' then ''&amp;''
      else if c = CHR ''<'' then ''&lt;''
      else if c = CHR ''>'' then ''&gt;''
      else [c])"

definition lower_char :: "char \<Rightarrow> char" where
  "lower_char c =
     (case map_of (zip ''ABCDEFGHIJKLMNOPQRSTUVWXYZ'' ''abcdefghijklmnopqrstuvwxyz'') c of
        None \<Rightarrow> c
      | Some d \<Rightarrow> d)"

definition serialize_plain :: "string \<Rightarrow> (string \<times> string) list \<Rightarrow> string \<Rightarrow> string" where
  \<open>serialize_plain n as i =
     ''<'' @ map lower_char n @ concat (map (\<lambda>(k, v). '' '' @ k @ ''="'' @ v @ ''"'') as) @
     ''>'' @ i @ ''</'' @ map lower_char n @ ''>''\<close>

definition stringify_plain :: "(string \<times> string) list \<Rightarrow> string" where
  \<open>stringify_plain kvs =
     ''{'' @ concat (map (\<lambda>(k, v). ''"'' @ k @ ''":"'' @ v @ ''",'') kvs) @ ''}''\<close>

definition example_script :: "string \<Rightarrow> state \<Rightarrow> page_event list \<times> jsval option" where
  "example_script t s =
     (if t = ''console.warn(1)'' then ([Tick 1, Log ChWarn (Num 1)], None)
      else if t = ''throw 2'' then ([Tick 1], Some (Num 2))
      else ([], None))"

definition example_host :: host where
  "example_host =
     \<lparr>showNum = show_int,
      escapeText = (\<lambda>t. concat (map escape_char t)),
      serialize = serialize_plain,
      computedStyle = (\<lambda>s e. [(''display'', ''block'')]),
      stringify = stringify_plain,
      script = example_script,
      strictMode = True\<rparr>"

definition example_element :: element where
  "example_element =
     \<lparr>nodeName = ''DIV'', svg = False, attrs = [(''id'', ''foo'')], inner = ''hi'',
      parent = ElementParent, emptyProp = None\<rparr>"


text \<open>A page on which no inspector has been constructed yet; the fields of the instance
  and of its panel get their values from the constructor.\<close>

definition example_page :: state where
  "example_page =
     \<lparr>general = [], consoleOut = [], clock = 5, timeline = [],
      localStorage = [], sessionStorage = [], cookie = [],
      rootDataMode = None, rootSideMode = False, styling = 0,
      active = False, sid = [], selected = None, tab = [],
      winOff = False, winSideMode = False, winLeft = [], winTop = [], winHTML = []\<rparr>"

definition example_session :: state where
  "example_session = Inspector_new ''0'' example_page"

text \<open>The example session switched on, with the example element inspected at (10, 20).\<close>

definition example_inspected :: state where
  "example_inspected =
     run example_host [Toggle, Inspect example_element \<lparr>posX = Some 10, posY = Some 20\<rparr>]
       example_session"






text \<open>A click at (30, 40), and the example session with the example element inspected
  after a click on the button Performance and then one on the button Mark.\<close>

definition example_click :: ui_event where
  "example_click = \<lparr>targetValue = [], pageX = Some 30, pageY = Some 40\<rparr>"

definition example_performance :: state where
  "example_performance = run example_host [Sp example_click ''performance''] example_inspected"

definition example_marked :: state where
  "example_marked = run example_host [Sp example_click ''mark''] example_performance"

text \<open>The example session with the example element inspected, after page code has
  logged a symbol.\<close>

definition example_symbol_logged :: state where
  "example_symbol_logged = page_step (Log ChLog (Sym ''s'')) example_inspected"

section \<open>Predicates on sessions\<close>

text \<open>The log is in order of time, and no entry is later than the clock.\<close>

definition log_ok :: "state \<Rightarrow> bool" where
  "log_ok s = (sorted (map ts (general s)) \<and> (\<forall>l \<in> set (general s). ts l \<le> clock s))"

text \<open>The state a handler leaves, however it ends.\<close>

fun state_of :: "result \<Rightarrow> state" where
  "state_of (Returned s) = s"
| "state_of (Thrown err s) = s"

fun returns :: "result \<Rightarrow> bool" where
  "returns (Returned s) = True"
| "returns (Thrown err s) = False"

text \<open>The event runs \<^verbatim>\<open>inspectElement\<close> past its guard and to its end: a direct call while
  active, or a \<^verbatim>\<open>contextmenu\<close> event while active on a target outside the panel, that
  returns. The tabs of the panel are the four values of the type of \<^verbatim>\<open>tab\<close>.\<close>

fun completes_inspect :: "host \<Rightarrow> event \<Rightarrow> state \<Rightarrow> bool" where
  "completes_inspect h (Inspect el pos) s = (active s \<and> returns (inspectElement h el pos s))"
| "completes_inspect h (ContextMenu el pos) s =
     (active s \<and> ''inspect.core'' \<notin> set (classList el) \<and> elem_id el \<noteq> sid s \<and>
      returns (inspectElement h el pos s))"
| "completes_inspect h e s = False"

text \<open>A payload that has a text, and a state whose log holds only such payloads: the
  loop over the log in \<^verbatim>\<open>inspectElement\<close> then runs to its end.\<close>

fun printable :: "jsval \<Rightarrow> bool" where
  "printable (Sym t) = False"
| "printable Bare = False"
| "printable v = True"

definition renderable :: "state \<Rightarrow> bool" where
  "renderable s = list_all (\<lambda>l. printable (data l)) (general s)"

definition valid_tab :: "string \<Rightarrow> bool" where
  "valid_tab t = (t \<in> {''display'', ''console'', ''storage'', ''performance''})"

section \<open>Frames and invariants\<close>

lemmas log_defs = console_log_def console_error_def console_warn_def push_log_def forward_def
  on_unhandledrejection_def on_error_def tick_def performance_mark_def

lemma console_call_defined:
  "d \<noteq> Undefined \<Longrightarrow>
     general (console_call c d s) = general s @ [\<lparr>ts = clock s, data = d\<rparr>]"
  by (cases c) (simp_all add: log_defs)

lemma log_ok_push: "log_ok s \<Longrightarrow> log_ok (push_log d s)"
  by (auto simp: log_ok_def push_log_def sorted_append)

lemma log_ok_forward: "log_ok s \<Longrightarrow> log_ok (forward c d s)"
  by (simp add: log_ok_def forward_def)

lemma log_ok_console_call: "log_ok s \<Longrightarrow> log_ok (console_call c d s)"
  by (cases c) (simp_all add: console_log_def console_error_def console_warn_def
      log_ok_push log_ok_forward)

lemma log_ok_tick: "log_ok s \<Longrightarrow> log_ok (tick n s)"
  by (fastforce simp: log_ok_def tick_def)

lemma log_ok_mark: "log_ok s \<Longrightarrow> log_ok (performance_mark n s)"
  by (simp add: log_ok_def performance_mark_def)

lemma log_ok_restyle: "log_ok s \<Longrightarrow> log_ok (s\<lparr>styling := n\<rparr>)"
  by (simp add: log_ok_def)

lemma log_ok_page_step: "log_ok s \<Longrightarrow> log_ok (page_step e s)"
  by (cases e) (simp_all add: log_ok_console_call log_ok_tick log_ok_mark log_ok_push
      on_unhandledrejection_def on_error_def log_ok_restyle)

lemma log_ok_page_run: "log_ok s \<Longrightarrow> log_ok (page_run es s)"
  by (induction es arbitrary: s) (simp_all add: log_ok_page_step)

lemma inspectElement_inactive: "\<not> active s \<Longrightarrow> inspectElement h el pos s = Returned s"
  by (simp add: inspectElement_def)

lemma inspectElement_throws:
  "active s \<Longrightarrow> logs_markup h (general s) = Inl err \<Longrightarrow>
     inspectElement h el pos s = Thrown err (move_panel h pos s)"
  by (simp add: inspectElement_def Let_def move_panel_def)

lemma inspectElement_renders:
  "active s \<Longrightarrow> logs_markup h (general s) = Inr lg \<Longrightarrow>
     inspectElement h el pos s =
       Returned (move_panel h pos s
         \<lparr>winHTML := render h (move_panel h pos s) el
            (style_text (computedStyle h (move_panel h pos s) el)) lg,
          selected := Some el\<rparr>)"
  by (simp add: inspectElement_def Let_def move_panel_def)

lemma inspectElement_cases:
  obtains "\<not> active s" "inspectElement h el pos s = Returned s"
  | err where "active s" "logs_markup h (general s) = Inl err"
      "inspectElement h el pos s = Thrown err (move_panel h pos s)"
  | lg where "active s" "logs_markup h (general s) = Inr lg"
      "inspectElement h el pos s =
         Returned (move_panel h pos s
           \<lparr>winHTML := render h (move_panel h pos s) el
              (style_text (computedStyle h (move_panel h pos s) el)) lg,
            selected := Some el\<rparr>)"
proof (cases "active s")
  case False
  then show ?thesis using inspectElement_inactive that(1) by blast
next
  case True
  show ?thesis
  proof (cases "logs_markup h (general s)")
    case (Inl err)
    then show ?thesis using True inspectElement_throws that(2) by blast
  next
    case (Inr lg)
    then show ?thesis using True inspectElement_renders that(3) by blast
  qed
qed

lemma inspectElement_frame:
  "general (state_of (inspectElement h el pos s)) = general s \<and>
   clock (state_of (inspectElement h el pos s)) = clock s \<and>
   timeline (state_of (inspectElement h el pos s)) = timeline s \<and>
   tab (state_of (inspectElement h el pos s)) = tab s \<and>
   active (state_of (inspectElement h el pos s)) = active s \<and>
   winOff (state_of (inspectElement h el pos s)) = winOff s \<and>
   sid (state_of (inspectElement h el pos s)) = sid s"
  by (rule inspectElement_cases [of s h el pos]) (simp_all add: move_panel_def)

lemma inspectElement_selected:
  "selected (state_of (inspectElement h el pos s)) =
     (if returns (inspectElement h el pos s) \<and> active s then Some el else selected s)"
  by (rule inspectElement_cases [of s h el pos]) (simp_all add: move_panel_def)

lemma log_ok_inspect: "log_ok s \<Longrightarrow> log_ok (state_of (inspectElement h el pos s))"
  by (simp add: log_ok_def inspectElement_frame)

lemma log_ok_toggle: "log_ok s \<Longrightarrow> log_ok (toggle s)"
  by (simp add: log_ok_def toggle_def)

lemma page_step_frame:
  "active (page_step e s) = active s \<and> winOff (page_step e s) = winOff s \<and>
   selected (page_step e s) = selected s \<and> tab (page_step e s) = tab s \<and>
   sid (page_step e s) = sid s"
proof (cases e)
  case (Log c d)
  then show ?thesis by (cases c) (simp_all add: log_defs)
qed (simp_all add: log_defs)

lemma page_run_frame:
  "active (page_run es s) = active s \<and> winOff (page_run es s) = winOff s \<and>
   selected (page_run es s) = selected s \<and> tab (page_run es s) = tab s \<and>
   sid (page_run es s) = sid s"
  by (induction es arbitrary: s) (simp_all add: page_step_frame)

lemma measure_frame:
  "performance_measure n a b s = Inr s' \<Longrightarrow>
     general s' = general s \<and> clock s' = clock s \<and> active s' = active s \<and>
     winOff s' = winOff s \<and> selected s' = selected s \<and> tab s' = tab s"
  by (auto simp: performance_measure_def split: option.splits)

lemma stamp_frame:
  "active (state_of (stamp h s)) = active s \<and> winOff (state_of (stamp h s)) = winOff s \<and>
   selected (state_of (stamp h s)) = selected s \<and>
   tab (state_of (stamp h s)) \<in> {tab s, ''console''}"
proof (cases "performance_measure ''ins-s-to-e-measure'' ''ins-mark'' ''ins-end-mark''
    (performance_mark ''ins-end-mark'' s)")
  case (Inl err)
  then show ?thesis by (simp add: stamp_def Let_def performance_mark_def)
next
  case (Inr s2)
  note fr = measure_frame [OF Inr]
  show ?thesis
  proof (cases "getEntriesByName ''ins-s-to-e-measure'' (timeline s2)")
    case Nil
    then show ?thesis using Inr fr by (simp add: stamp_def Let_def performance_mark_def)
  next
    case (Cons r rs)
    then show ?thesis using Inr fr
      by (simp add: stamp_def Let_def performance_mark_def console_log_def push_log_def
          forward_def clearMarks_def clearMeasures_def)
  qed
qed

lemma stamp_log_ok: "log_ok s \<Longrightarrow> log_ok (state_of (stamp h s))"
proof -
  assume ok: "log_ok s"
  let ?sa = "performance_mark ''ins-end-mark'' s"
  have ok1: "log_ok ?sa" using ok by (rule log_ok_mark)
  show ?thesis
  proof (cases "performance_measure ''ins-s-to-e-measure'' ''ins-mark'' ''ins-end-mark'' ?sa")
    case (Inl err)
    then show ?thesis using ok1 by (simp add: stamp_def Let_def)
  next
    case (Inr s2)
    then have ok2: "log_ok s2"
      using ok1 measure_frame [OF Inr] by (simp add: log_ok_def)
    show ?thesis
    proof (cases "getEntriesByName ''ins-s-to-e-measure'' (timeline s2)")
      case Nil
      then show ?thesis using Inr ok2 by (simp add: stamp_def Let_def)
    next
      case (Cons r rs)
      have "log_ok (console_log (Str (stamp_result h r)) s2)"
        using log_ok_console_call [OF ok2, of ChLog] by simp
      then show ?thesis using Inr Cons
        by (simp add: stamp_def Let_def log_ok_def clearMarks_def clearMeasures_def)
    qed
  qed
qed

lemma runjs_cases:
  obtains evs where "runjs h ev s = Returned (page_run evs (console_log (Str (''~> '' @ targetValue ev)) s))"
  | evs x where "runjs h ev s = Thrown (ScriptError x) (page_run evs (console_log (Str (''~> '' @ targetValue ev)) s))"
proof (cases "script h (targetValue ev) (console_log (Str (''~> '' @ targetValue ev)) s)")
  case (Pair evs r)
  then show ?thesis
    by (cases r) (simp_all add: runjs_def Let_def that)
qed

lemma state_of_runjs:
  "\<exists>evs. state_of (runjs h ev s) = page_run evs (console_log (Str (''~> '' @ targetValue ev)) s)"
  by (rule runjs_cases [of h ev s]) auto

lemma console_log_frame:
  "active (console_log d s) = active s \<and> winOff (console_log d s) = winOff s \<and>
   selected (console_log d s) = selected s \<and> tab (console_log d s) = tab s \<and>
   sid (console_log d s) = sid s"
  by (simp add: log_defs)

lemma runjs_frame:
  "active (state_of (runjs h ev s)) = active s \<and> winOff (state_of (runjs h ev s)) = winOff s \<and>
   selected (state_of (runjs h ev s)) = selected s \<and> tab (state_of (runjs h ev s)) = tab s"
proof -
  obtain evs where "state_of (runjs h ev s) = page_run evs (console_log (Str (''~> '' @ targetValue ev)) s)"
    using state_of_runjs by blast
  then show ?thesis by (simp add: page_run_frame console_log_frame)
qed

lemma runjs_log_ok: "log_ok s \<Longrightarrow> log_ok (state_of (runjs h ev s))"
proof -
  assume ok: "log_ok s"
  obtain evs where "state_of (runjs h ev s) = page_run evs (console_log (Str (''~> '' @ targetValue ev)) s)"
    using state_of_runjs by blast
  then show ?thesis using log_ok_console_call [OF ok, of ChLog] by (simp add: log_ok_page_run)
qed

lemma sp_switch_active: "active (state_of (sp_switch h ev n s)) = active s"
  by (simp add: sp_switch_def performance_mark_def stamp_frame runjs_frame)

lemma sp_switch_winOff: "winOff (state_of (sp_switch h ev n s)) = winOff s"
  by (simp add: sp_switch_def performance_mark_def stamp_frame runjs_frame)

lemma sp_switch_selected: "selected (state_of (sp_switch h ev n s)) = selected s"
  by (simp add: sp_switch_def performance_mark_def stamp_frame runjs_frame)

lemma sp_switch_tab:
  "tab (state_of (sp_switch h ev n s)) \<in>
     {tab s, ''display'', ''console'', ''storage'', ''performance''}"
  using stamp_frame [of h s]
  by (simp add: sp_switch_def performance_mark_def runjs_frame) blast

lemma sp_switch_log_ok: "log_ok s \<Longrightarrow> log_ok (state_of (sp_switch h ev n s))"
  by (simp add: sp_switch_def log_ok_mark stamp_log_ok runjs_log_ok) (simp add: log_ok_def)

lemma sp_state:
  "state_of (sp h ev n s) =
     (case selected s of
        None \<Rightarrow> s
      | Some e \<Rightarrow>
          (case sp_switch h ev n s of
             Thrown err s' \<Rightarrow> s'
           | Returned s' \<Rightarrow> state_of (inspectElement h e (event_position ev) s')))"
  by (cases "selected s"; cases "sp_switch h ev n s") (simp_all add: sp_def)

lemma sp_state_cases:
  "state_of (sp h ev n s) = s \<and> selected s = None \<or>
   (\<exists>e. selected s = Some e \<and>
      (state_of (sp h ev n s) = state_of (sp_switch h ev n s) \<or>
       state_of (sp h ev n s) =
         state_of (inspectElement h e (event_position ev) (state_of (sp_switch h ev n s)))))"
  by (cases "selected s"; cases "sp_switch h ev n s") (simp_all add: sp_def)

lemma sp_active: "active (state_of (sp h ev n s)) = active s"
  using sp_state_cases [of h ev n s] by (auto simp: sp_switch_active inspectElement_frame)

lemma sp_winOff: "winOff (state_of (sp h ev n s)) = winOff s"
  using sp_state_cases [of h ev n s] by (auto simp: sp_switch_winOff inspectElement_frame)

lemma sp_selected: "selected (state_of (sp h ev n s)) = selected s"
  using sp_state_cases [of h ev n s] sp_switch_selected [of h ev n s]
  by (auto simp: inspectElement_selected)

lemma sp_tab:
  "tab (state_of (sp h ev n s)) \<in> {tab s, ''display'', ''console'', ''storage'', ''performance''}"
  using sp_state_cases [of h ev n s] sp_switch_tab [of h ev n s]
  by (auto simp: inspectElement_frame)

lemma sp_log_ok: "log_ok s \<Longrightarrow> log_ok (state_of (sp h ev n s))"
  using sp_state_cases [of h ev n s] sp_switch_log_ok [of s h ev n]
  by (auto simp: log_ok_inspect)

lemma ch_state_cases:
  "state_of (ch h ev f s) = s \<or>
   (\<exists>e e'. selected s = Some e \<and> assign h f (targetValue ev) e = Inr e' \<and>
      ch h ev f s = inspectElement h e' (event_position ev) (s\<lparr>selected := Some e'\<rparr>))"
  by (cases "selected s"; cases "assign h f (targetValue ev) (the (selected s))")
    (simp_all add: ch_def)

lemma ch_active: "active (state_of (ch h ev f s)) = active s"
  using ch_state_cases [of h ev f s] by (auto simp: inspectElement_frame)

lemma ch_winOff: "winOff (state_of (ch h ev f s)) = winOff s"
  using ch_state_cases [of h ev f s] by (auto simp: inspectElement_frame)

lemma ch_tab: "tab (state_of (ch h ev f s)) = tab s"
  using ch_state_cases [of h ev f s] by (auto simp: inspectElement_frame)

lemma ch_selected_None: "selected s = None \<Longrightarrow> selected (state_of (ch h ev f s)) = None"
  by (simp add: ch_def)

lemma ch_log_ok: "log_ok s \<Longrightarrow> log_ok (state_of (ch h ev f s))"
  using ch_state_cases [of h ev f s] by (auto simp: log_ok_def inspectElement_frame)

lemma report_frame:
  "active (report r) = active (state_of r) \<and> winOff (report r) = winOff (state_of r) \<and>
   selected (report r) = selected (state_of r) \<and> tab (report r) = tab (state_of r)"
  by (cases r) (simp_all add: on_error_def push_log_def)

lemma report_log_ok: "log_ok (state_of r) \<Longrightarrow> log_ok (report r)"
  by (cases r) (simp_all add: on_error_def log_ok_push)

lemma contextmenu_state:
  "state_of (on_contextmenu h el pos s) = s \<or>
   on_contextmenu h el pos s = inspectElement h el pos s"
  by (simp add: on_contextmenu_def)

lemma step_log_ok: "log_ok s \<Longrightarrow> log_ok (step h e s)"
proof (cases e)
  case (ContextMenu el pos)
  assume "log_ok s"
  then show ?thesis
    using ContextMenu contextmenu_state [of h el pos s] log_ok_inspect [of s h el pos]
    by (auto simp: report_log_ok)
qed (simp_all add: log_ok_page_step log_ok_toggle log_ok_inspect on_keydown_def report_log_ok
    ch_log_ok sp_log_ok)

lemma run_log_ok: "log_ok s \<Longrightarrow> log_ok (run h es s)"
  by (induction es arbitrary: s) (simp_all add: step_log_ok)

lemma step_visible: "winOff s = (\<not> active s) \<Longrightarrow> winOff (step h e s) = (\<not> active (step h e s))"
proof (cases e)
  case (ContextMenu el pos)
  assume "winOff s = (\<not> active s)"
  then show ?thesis
    using ContextMenu contextmenu_state [of h el pos s]
    by (auto simp: report_frame inspectElement_frame)
qed (auto simp: page_step_frame toggle_def on_keydown_def report_frame inspectElement_frame
    ch_active ch_winOff sp_active sp_winOff)

lemma run_visible: "winOff s = (\<not> active s) \<Longrightarrow> winOff (run h es s) = (\<not> active (run h es s))"
  by (induction es arbitrary: s) (simp_all add: step_visible)

lemma step_valid_tab: "valid_tab (tab s) \<Longrightarrow> valid_tab (tab (step h e s))"
proof (cases e)
  case (Sp ev n)
  then show "valid_tab (tab s) \<Longrightarrow> valid_tab (tab (step h e s))"
    using sp_tab [of h ev n s] by (auto simp: valid_tab_def report_frame)
next
  case (ContextMenu el pos)
  then show "valid_tab (tab s) \<Longrightarrow> valid_tab (tab (step h e s))"
    using contextmenu_state [of h el pos s] by (auto simp: report_frame inspectElement_frame)
qed (simp_all add: page_step_frame toggle_def on_keydown_def report_frame ch_tab
    inspectElement_frame)

lemma run_valid_tab: "valid_tab (tab s) \<Longrightarrow> valid_tab (tab (run h es s))"
  by (induction es arbitrary: s) (simp_all add: step_valid_tab)

lemma step_selected:
  "selected (step h e s) \<noteq> None \<Longrightarrow> selected s \<noteq> None \<or> completes_inspect h e s"
proof (cases e)
  case (Ch ev f)
  then show "selected (step h e s) \<noteq> None \<Longrightarrow> selected s \<noteq> None \<or> completes_inspect h e s"
    using ch_selected_None [of s h ev f] by (cases "selected s") (simp_all add: report_frame)
next
  case (Sp ev n)
  then show "selected (step h e s) \<noteq> None \<Longrightarrow> selected s \<noteq> None \<or> completes_inspect h e s"
    by (simp add: report_frame sp_selected)
next
  case (Inspect el pos)
  then show "selected (step h e s) \<noteq> None \<Longrightarrow> selected s \<noteq> None \<or> completes_inspect h e s"
    by (simp add: report_frame inspectElement_selected split: if_splits)
next
  case (ContextMenu el pos)
  then show "selected (step h e s) \<noteq> None \<Longrightarrow> selected s \<noteq> None \<or> completes_inspect h e s"
    by (simp add: report_frame on_contextmenu_def inspectElement_selected split: if_splits)
qed (auto simp: page_step_frame toggle_def on_keydown_def split: if_splits)

lemma run_snoc: "run h (es @ [e]) s = step h e (run h es s)"
  by (induction es arbitrary: s) simp_all

lemma run_selected:
  "selected (run h es s) \<noteq> None \<Longrightarrow>
     selected s \<noteq> None \<or> (\<exists>pre e post. es = pre @ e # post \<and> completes_inspect h e (run h pre s))"
proof (induction es rule: rev_induct)
  case Nil
  then show ?case by simp
next
  case (snoc x xs)
  from snoc.prems have "selected (step h x (run h xs s)) \<noteq> None"
    by (simp add: run_snoc)
  then consider "selected (run h xs s) \<noteq> None" | "completes_inspect h x (run h xs s)"
    using step_selected by blast
  then show ?case
  proof cases
    case 1
    with snoc.IH consider "selected s \<noteq> None"
      | pre e post where "xs = pre @ e # post" "completes_inspect h e (run h pre s)"
      by blast
    then show ?thesis
    proof cases
      case 1
      then show ?thesis by simp
    next
      case 2
      then have "xs @ [x] = pre @ e # (post @ [x])" by simp
      with 2 show ?thesis by blast
    qed
  next
    case 2
    have "xs @ [x] = xs @ x # []" by simp
    with 2 show ?thesis by blast
  qed
qed

lemma page_run_calls:
  "(\<forall>e \<in> set evs. case e of Log c d \<Rightarrow> d \<noteq> Undefined | Tick n \<Rightarrow> True | _ \<Rightarrow> False) \<Longrightarrow>
     map data (general (page_run evs s)) = map data (general s) @ [d. Log c d \<leftarrow> evs]"
proof (induction evs arbitrary: s)
  case Nil
  then show ?case by simp
next
  case (Cons e evs)
  then have rest: "map data (general (page_run evs (page_step e s))) =
      map data (general (page_step e s)) @ [d. Log c d \<leftarrow> evs]"
    by simp
  from Cons.prems show ?case
  proof (cases e)
    case (Log c d)
    with Cons.prems have "d \<noteq> Undefined" by simp
    then show ?thesis using rest Log by (simp add: console_call_defined)
  next
    case (Tick n)
    then show ?thesis using rest by (simp add: tick_def)
  qed simp_all
qed

lemmas example_defs = example_session_def example_page_def Inspector_new_def

lemma logs_markup_printable:
  "list_all (\<lambda>l. printable (data l)) ls \<Longrightarrow> \<exists>lg. logs_markup h ls = Inr lg"
proof (induction ls)
  case Nil
  then show ?case by simp
next
  case (Cons l ls)
  then obtain lg where "logs_markup h ls = Inr lg" by auto
  moreover from Cons.prems have "printable (data l)" by simp
  then obtain t where "toString h (data l) = Inr t" by (cases "data l") simp_all
  ultimately show ?case by simp
qed

lemma logs_markup_unprintable:
  "\<not> list_all (\<lambda>l. printable (data l)) ls \<Longrightarrow> logs_markup h ls = Inl TypeError"
proof (induction ls)
  case Nil
  then show ?case by simp
next
  case (Cons l ls)
  show ?case
  proof (cases "printable (data l)")
    case False
    then have "toString h (data l) = Inl TypeError" by (cases "data l") simp_all
    then show ?thesis by simp
  next
    case True
    then obtain t where t: "toString h (data l) = Inr t" by (cases "data l") simp_all
    from True Cons.prems have "\<not> list_all (\<lambda>l. printable (data l)) ls" by simp
    then have "logs_markup h ls = Inl TypeError" by (rule Cons.IH)
    with t show ?thesis by simp
  qed
qed

lemma renderable_markup: "renderable s \<Longrightarrow> \<exists>lg. logs_markup h (general s) = Inr lg"
  by (simp add: renderable_def logs_markup_printable)

lemma unrenderable_markup: "\<not> renderable s \<Longrightarrow> logs_markup h (general s) = Inl TypeError"
  by (simp add: renderable_def logs_markup_unprintable)

lemma panel_head_cong:
  "sid s' = sid s \<Longrightarrow> tab s' = tab s \<Longrightarrow> winSideMode s' = winSideMode s \<Longrightarrow>
     panel_head s' el = panel_head s el"
  by (simp add: panel_head_def)

lemma display_tab_cong: "sid s' = sid s \<Longrightarrow> display_tab h s' el st = display_tab h s el st"
  by (simp add: display_tab_def)

lemma console_tab_cong: "sid s' = sid s \<Longrightarrow> console_tab s' lg = console_tab s lg"
  by (simp add: console_tab_def)

lemma storage_tab_cong:
  "sid s' = sid s \<Longrightarrow> localStorage s' = localStorage s \<Longrightarrow>
   sessionStorage s' = sessionStorage s \<Longrightarrow> cookie s' = cookie s \<Longrightarrow>
     storage_tab h s' = storage_tab h s"
  by (simp add: storage_tab_def)

lemma performance_tab_cong:
  "sid s' = sid s \<Longrightarrow>
   (getEntriesByName ''ins-mark'' (timeline s') = []) = (getEntriesByName ''ins-mark'' (timeline s) = []) \<Longrightarrow>
     performance_tab s' = performance_tab s"
  by (simp add: performance_tab_def)

lemma tab_markup_cong:
  assumes "sid s' = sid s" "tab s' = tab s"
    "localStorage s' = localStorage s" "sessionStorage s' = sessionStorage s" "cookie s' = cookie s"
    "(getEntriesByName ''ins-mark'' (timeline s') = []) = (getEntriesByName ''ins-mark'' (timeline s) = [])"
  shows "tab_markup h s' el st lg = tab_markup h s el st lg"
  using assms
  by (simp add: tab_markup_def display_tab_cong [of s' s] console_tab_cong [of s' s]
      storage_tab_cong [of s' s] performance_tab_cong [of s' s])

lemma render_cong:
  assumes "sid s' = sid s" "tab s' = tab s" "winSideMode s' = winSideMode s"
    "localStorage s' = localStorage s" "sessionStorage s' = sessionStorage s" "cookie s' = cookie s"
    "(getEntriesByName ''ins-mark'' (timeline s') = []) = (getEntriesByName ''ins-mark'' (timeline s) = [])"
  shows "render h s' el st lg = render h s el st lg"
  using assms by (simp add: render_def panel_head_cong [of s' s] tab_markup_cong [of s' s])

lemma render_moved: "render h (move_panel h pos s) el st lg = render h s el st lg"
  by (rule render_cong) (simp_all add: move_panel_def)

lemma render_result:
  "render h (s\<lparr>winHTML := m, selected := x\<rparr>) el st lg = render h s el st lg"
  by (rule render_cong) simp_all

lemma inspectElement_active_eq:
  "active s \<Longrightarrow> logs_markup h (general s) = Inr lg \<Longrightarrow>
     inspectElement h el pos s =
       Returned (s\<lparr>winLeft := style_assign h (posX pos) (winLeft s),
         winTop := style_assign h (posY pos) (winTop s),
         winHTML := render h s el (style_text (computedStyle h (move_panel h pos s) el)) lg,
         selected := Some el\<rparr>)"
  by (simp add: inspectElement_renders render_moved) (simp add: move_panel_def)

lemma mark_time_Nil: "mark_time n [] = None"
  by (simp add: mark_time_def)

lemma mark_time_append:
  "mark_time n (xs @ ys) =
     (case mark_time n ys of Some t \<Rightarrow> Some t | None \<Rightarrow> mark_time n xs)"
  by (cases "rev (filter (\<lambda>e. entryType e = Mark \<and> entryName e = n) ys)")
    (simp_all add: mark_time_def)

lemma mark_time_Cons:
  "mark_time n (e # es) =
     (case mark_time n es of
        Some t \<Rightarrow> Some t
      | None \<Rightarrow> if entryType e = Mark \<and> entryName e = n then Some (startTime e) else None)"
  by (cases "rev (filter (\<lambda>e. entryType e = Mark \<and> entryName e = n) es)")
    (simp_all add: mark_time_def)

lemmas mark_time_simps = mark_time_Nil mark_time_append mark_time_Cons

lemma getEntriesByName_Nil_iff:
  "getEntriesByName n buf = [] \<longleftrightarrow> (\<forall>e \<in> set buf. entryName e \<noteq> n)"
proof -
  have "getEntriesByName n buf = [] \<longleftrightarrow> set (getEntriesByName n buf) = {}"
    by simp
  also have "\<dots> \<longleftrightarrow> (\<forall>e \<in> set buf. entryName e \<noteq> n)"
    by (auto simp: getEntriesByName_def)
  finally show ?thesis .
qed

lemma measure_result:
  "mark_time a (timeline s) = Some b \<Longrightarrow> mark_time z (timeline s) = Some e \<Longrightarrow>
     performance_measure n a z s =
       Inr (s\<lparr>timeline := timeline s @
         [\<lparr>entryName = n, entryType = Measure, startTime = b, duration = e - b\<rparr>]\<rparr>)"
  by (simp add: performance_measure_def)

lemma stamp_without_mark:
  "mark_time ''ins-mark'' (timeline s) = None \<Longrightarrow>
     stamp h s = Thrown SyntaxError (performance_mark ''ins-end-mark'' s)"
  by (simp add: stamp_def Let_def performance_measure_def performance_mark_def mark_time_simps)

lemma stamp_with_mark:
  assumes "mark_time ''ins-mark'' (timeline s) = Some b"
  shows "\<exists>r rs.
     getEntriesByName ''ins-s-to-e-measure''
       (timeline s @
         [\<lparr>entryName = ''ins-end-mark'', entryType = Mark, startTime = clock s, duration = 0\<rparr>,
          \<lparr>entryName = ''ins-s-to-e-measure'', entryType = Measure, startTime = b,
            duration = clock s - b\<rparr>]) = r # rs \<and>
     stamp h s =
       Returned (s\<lparr>general := general s @ [\<lparr>ts = clock s, data = Str (stamp_result h r)\<rparr>],
         consoleOut := consoleOut s @ [(ChLog, Str (stamp_result h r))],
         timeline := filter (\<lambda>x. entryType x \<noteq> Mark \<and> entryType x \<noteq> Measure) (timeline s),
         tab := ''console''\<rparr>)"
proof -
  let ?sa = "performance_mark ''ins-end-mark'' s"
  let ?stop = "\<lparr>entryName = ''ins-end-mark'', entryType = Mark, startTime = clock s,
    duration = 0\<rparr>"
  let ?meas = "\<lparr>entryName = ''ins-s-to-e-measure'', entryType = Measure, startTime = b,
    duration = clock s - b\<rparr>"
  have "mark_time ''ins-mark'' (timeline ?sa) = Some b"
    using assms by (simp add: performance_mark_def mark_time_simps)
  moreover have "mark_time ''ins-end-mark'' (timeline ?sa) = Some (clock s)"
    by (simp add: performance_mark_def mark_time_simps)
  ultimately have m: "performance_measure ''ins-s-to-e-measure'' ''ins-mark'' ''ins-end-mark'' ?sa
      = Inr (?sa\<lparr>timeline := timeline s @ [?stop, ?meas]\<rparr>)"
    by (simp add: measure_result performance_mark_def)
  have "getEntriesByName ''ins-s-to-e-measure'' (timeline s @ [?stop, ?meas]) \<noteq> []"
    by (simp add: getEntriesByName_Nil_iff)
  then obtain r rs where g: "getEntriesByName ''ins-s-to-e-measure'' (timeline s @ [?stop, ?meas]) = r # rs"
    by (cases "getEntriesByName ''ins-s-to-e-measure'' (timeline s @ [?stop, ?meas])") auto
  have "stamp h s =
       Returned (s\<lparr>general := general s @ [\<lparr>ts = clock s, data = Str (stamp_result h r)\<rparr>],
         consoleOut := consoleOut s @ [(ChLog, Str (stamp_result h r))],
         timeline := filter (\<lambda>x. entryType x \<noteq> Mark \<and> entryType x \<noteq> Measure) (timeline s),
         tab := ''console''\<rparr>)"
    using m g
    by (simp add: stamp_def Let_def console_log_def push_log_def forward_def clearMarks_def
        clearMeasures_def performance_mark_def)
  with g show ?thesis by blast
qed

lemma stamp_returned_tab: "stamp h s = Returned s' \<Longrightarrow> tab s' = ''console''"
  by (auto simp: stamp_def Let_def split: sum.splits list.splits)

lemma sp_stamp:
  "selected s = Some e \<Longrightarrow>
     sp h ev ''stamp'' s =
       (case stamp h s of
          Thrown err s' \<Rightarrow> Thrown err s'
        | Returned s' \<Rightarrow> inspectElement h e (event_position ev) s')"
  by (simp add: sp_def sp_switch_def)

lemma sp_mark:
  "selected s = Some e \<Longrightarrow>
     sp h ev ''mark'' s = inspectElement h e (event_position ev) (performance_mark ''ins-mark'' s)"
  by (simp add: sp_def sp_switch_def performance_mark_def)





lemma px_example:
  "style_assign example_host (Some 10) old = ''10px''"
  "style_assign example_host (Some 20) old = ''20px''"
  "style_assign example_host (Some 30) old = ''30px''"
  "style_assign example_host (Some 40) old = ''40px''"
  "style_assign example_host None old = old"
  by (simp_all add: style_assign_def example_host_def show_int_def show_nat.simps digit_def)

lemma inspected_eq:
  assumes "logs_markup example_host (general w) = Inr lg"
  shows "run example_host [Toggle, Inspect el \<lparr>posX = Some 10, posY = Some 20\<rparr>]
       (Inspector_new uuid w) =
     (toggle (Inspector_new uuid w))
       \<lparr>winLeft := ''10px'', winTop := ''20px'',
        winHTML := render example_host (toggle (Inspector_new uuid w)) el
          (style_text [(''display'', ''block'')]) lg,
        selected := Some el\<rparr>"
proof -
  let ?s = "toggle (Inspector_new uuid w)"
  have a: "active ?s" by (simp add: toggle_def Inspector_new_def)
  have g: "logs_markup example_host (general ?s) = Inr lg"
    using assms by (simp add: toggle_def Inspector_new_def)
  have c: "computedStyle example_host x y = [(''display'', ''block'')]" for x y
    by (simp add: example_host_def)
  show ?thesis
    by (simp add: inspectElement_active_eq [OF a g] px_example c)
qed

lemma example_inspected_eq:
  "example_inspected =
     (toggle example_session)
       \<lparr>winLeft := ''10px'', winTop := ''20px'',
        winHTML := render example_host (toggle example_session) example_element
          (style_text [(''display'', ''block'')]) [],
        selected := Some example_element\<rparr>"
  unfolding example_inspected_def example_session_def
  by (rule inspected_eq) (simp add: example_page_def)



lemma example_inspected_fields:
  "selected example_inspected = Some example_element"
  "active example_inspected"
  "general example_inspected = []"
  "clock example_inspected = 5"
  "timeline example_inspected = []"
  "winLeft example_inspected = ''10px''"
  "tab example_inspected = ''display''"
  by (simp_all add: example_inspected_eq toggle_def example_defs)

lemma example_inspected_renderable: "renderable example_inspected"
  by (simp add: renderable_def example_inspected_fields)

lemma example_symbol_logged_fields:
  "selected example_symbol_logged = Some example_element"
  "active example_symbol_logged"
  "general example_symbol_logged = [\<lparr>ts = 5, data = Sym ''s''\<rparr>]"
  "winHTML example_symbol_logged = winHTML example_inspected"
  "winLeft example_symbol_logged = ''10px''"
  by (simp_all add: example_symbol_logged_def log_defs example_inspected_fields)

lemma example_symbol_logged_unrenderable: "\<not> renderable example_symbol_logged"
  by (simp add: renderable_def example_symbol_logged_fields)



section \<open>Lemmas for the claims\<close>

lemma stamp_keeps_renderable:
  "stamp h s = Returned s' \<Longrightarrow> renderable s' = renderable s \<and> active s' = active s"
proof (cases "mark_time ''ins-mark'' (timeline s)")
  case None
  assume "stamp h s = Returned s'"
  then show ?thesis using None by (simp add: stamp_without_mark)
next
  case (Some b)
  assume r: "stamp h s = Returned s'"
  from stamp_with_mark [OF Some, of h] r show ?thesis
    by (auto simp: renderable_def)
qed

lemma sp_switch_unknown:
  "n \<notin> {''sideMode'', ''display'', ''console'', ''storage'', ''performance'', ''runjs'',
      ''mark'', ''stamp''} \<Longrightarrow> sp_switch h ev n s = Returned s"
  by (simp add: sp_switch_def)

lemma sp_unknown:
  "n \<notin> {''sideMode'', ''display'', ''console'', ''storage'', ''performance'', ''runjs'',
      ''mark'', ''stamp''} \<Longrightarrow>
   sp h ev n s =
     (case selected s of
        None \<Rightarrow> Returned s
      | Some e \<Rightarrow> inspectElement h e (event_position ev) s)"
  by (cases "selected s") (simp_all add: sp_def sp_switch_unknown)

lemma inspectElement_touches_panel:
  "\<exists>l t m. state_of (inspectElement h el pos s) = s\<lparr>winLeft := l, winTop := t, winHTML := m\<rparr> \<or>
     state_of (inspectElement h el pos s) =
       s\<lparr>winLeft := l, winTop := t, winHTML := m, selected := Some el\<rparr>"
proof (rule inspectElement_cases [of s h el pos])
  assume "inspectElement h el pos s = Returned s"
  then have "state_of (inspectElement h el pos s) =
      s\<lparr>winLeft := winLeft s, winTop := winTop s, winHTML := winHTML s\<rparr>"
    by simp
  then show ?thesis by blast
next
  fix err
  assume "inspectElement h el pos s = Thrown err (move_panel h pos s)"
  then have "state_of (inspectElement h el pos s) =
      s\<lparr>winLeft := style_assign h (posX pos) (winLeft s),
        winTop := style_assign h (posY pos) (winTop s), winHTML := winHTML s\<rparr>"
    by (simp add: move_panel_def)
  then show ?thesis by blast
next
  fix lg
  assume "inspectElement h el pos s =
         Returned (move_panel h pos s
           \<lparr>winHTML := render h (move_panel h pos s) el
              (style_text (computedStyle h (move_panel h pos s) el)) lg,
            selected := Some el\<rparr>)"
  then have "state_of (inspectElement h el pos s) =
      s\<lparr>winLeft := style_assign h (posX pos) (winLeft s),
        winTop := style_assign h (posY pos) (winTop s),
        winHTML := render h (move_panel h pos s) el
              (style_text (computedStyle h (move_panel h pos s) el)) lg,
        selected := Some el\<rparr>"
    by (simp add: move_panel_def)
  then show ?thesis by blast
qed

lemma reselect: "selected s = Some e \<Longrightarrow> s\<lparr>winLeft := l, winTop := t, winHTML := m, selected := Some e\<rparr>
    = s\<lparr>winLeft := l, winTop := t, winHTML := m\<rparr>"
  by (cases s) simp

lemma sp_reload_example:
  "sp example_host example_click ''reload'' example_inspected =
     Returned (example_inspected\<lparr>winLeft := ''30px'', winTop := ''40px'',
       winHTML := render example_host example_inspected example_element
         (style_text [(''display'', ''block'')]) []\<rparr>)"
proof -
  have lg: "logs_markup example_host (general example_inspected) = Inr []"
    by (simp add: example_inspected_fields)
  have c: "computedStyle example_host x y = [(''display'', ''block'')]" for x y
    by (simp add: example_host_def)
  show ?thesis
    by (simp add: sp_unknown example_inspected_fields
        inspectElement_active_eq [OF example_inspected_fields(2) lg] event_position_def
        example_click_def px_example c reselect)
qed

lemma sp_reload_symbol_example:
  "sp example_host example_click ''reload'' example_symbol_logged =
     Thrown TypeError (example_symbol_logged\<lparr>winLeft := ''30px'', winTop := ''40px''\<rparr>)"
proof -
  have lg: "logs_markup example_host (general example_symbol_logged) = Inl TypeError"
    by (simp add: example_symbol_logged_fields)
  show ?thesis
    by (simp add: sp_unknown example_symbol_logged_fields
        inspectElement_throws [OF example_symbol_logged_fields(2) lg] event_position_def
        example_click_def move_panel_def px_example)
qed

lemma sp_tab_performance:
  assumes "selected s = Some e" "active s" "logs_markup h (general s) = Inr lg"
  shows "sp h ev ''performance'' s =
     Returned (s\<lparr>tab := ''performance'',
       winLeft := style_assign h (pageX ev) (winLeft s),
       winTop := style_assign h (pageY ev) (winTop s),
       winHTML := render h (s\<lparr>tab := ''performance''\<rparr>) e
         (style_text (computedStyle h (move_panel h (event_position ev) (s\<lparr>tab := ''performance''\<rparr>)) e)) lg,
       selected := Some e\<rparr>)"
proof -
  have a: "active (s\<lparr>tab := ''performance''\<rparr>)" using assms by simp
  have g: "logs_markup h (general (s\<lparr>tab := ''performance''\<rparr>)) = Inr lg" using assms by simp
  show ?thesis
    using assms(1)
    by (simp add: sp_def sp_switch_def inspectElement_active_eq [OF a g] event_position_def)
qed

lemma sp_mark_result:
  assumes "selected s = Some e" "active s" "logs_markup h (general s) = Inr lg"
  shows "sp h ev ''mark'' s =
     Returned (performance_mark ''ins-mark'' s
       \<lparr>winLeft := style_assign h (pageX ev) (winLeft s),
        winTop := style_assign h (pageY ev) (winTop s),
        winHTML := render h (performance_mark ''ins-mark'' s) e
          (style_text (computedStyle h
             (move_panel h (event_position ev) (performance_mark ''ins-mark'' s)) e)) lg,
        selected := Some e\<rparr>)"
proof -
  have a: "active (performance_mark ''ins-mark'' s)" using assms by (simp add: performance_mark_def)
  have g: "logs_markup h (general (performance_mark ''ins-mark'' s)) = Inr lg"
    using assms by (simp add: performance_mark_def)
  show ?thesis
    using assms(1)
    by (simp add: sp_mark inspectElement_active_eq [OF a g] event_position_def)
      (simp add: performance_mark_def)
qed

lemma performance_tab_differs:
  "sid s' = sid s \<Longrightarrow> getEntriesByName ''ins-mark'' (timeline s) = [] \<Longrightarrow>
   getEntriesByName ''ins-mark'' (timeline s') \<noteq> [] \<Longrightarrow>
     performance_tab s' \<noteq> performance_tab s"
  by (simp add: performance_tab_def)

lemma render_performance_differs:
  assumes "sid s' = sid s" "tab s' = ''performance''" "tab s = ''performance''"
    "winSideMode s' = winSideMode s"
    "getEntriesByName ''ins-mark'' (timeline s) = []"
    "getEntriesByName ''ins-mark'' (timeline s') \<noteq> []"
  shows "render h s' el st lg \<noteq> render h s el st' lg'"
proof -
  have "panel_head s' el = panel_head s el"
    using assms by (intro panel_head_cong) simp_all
  moreover have "tab_markup h s' el st lg = performance_tab s'"
    using assms by (simp add: tab_markup_def)
  moreover have "tab_markup h s el st' lg' = performance_tab s"
    using assms by (simp add: tab_markup_def)
  moreover have "performance_tab s' \<noteq> performance_tab s"
    using assms by (intro performance_tab_differs) simp_all
  ultimately show ?thesis by (simp add: render_def)
qed

lemma example_performance_eq:
  "example_performance =
     example_inspected\<lparr>tab := ''performance'', winLeft := ''30px'', winTop := ''40px'',
       winHTML := render example_host (example_inspected\<lparr>tab := ''performance''\<rparr>) example_element
         (style_text [(''display'', ''block'')]) [],
       selected := Some example_element\<rparr>"
proof -
  have lg: "logs_markup example_host (general example_inspected) = Inr []"
    by (simp add: example_inspected_fields)
  have c: "computedStyle example_host x y = [(''display'', ''block'')]" for x y
    by (simp add: example_host_def)
  show ?thesis
    by (simp add: example_performance_def
        sp_tab_performance [OF example_inspected_fields(1,2) lg] example_click_def px_example c)
qed

lemma example_performance_fields:
  "selected example_performance = Some example_element"
  "active example_performance"
  "general example_performance = []"
  "timeline example_performance = []"
  "tab example_performance = ''performance''"
  by (simp_all add: example_performance_eq example_inspected_fields)

lemma example_marked_eq:
  "example_marked =
     performance_mark ''ins-mark'' example_performance
       \<lparr>winLeft := ''30px'', winTop := ''40px'',
        winHTML := render example_host (performance_mark ''ins-mark'' example_performance)
          example_element (style_text [(''display'', ''block'')]) [],
        selected := Some example_element\<rparr>"
proof -
  have lg: "logs_markup example_host (general example_performance) = Inr []"
    by (simp add: example_performance_fields)
  have c: "computedStyle example_host x y = [(''display'', ''block'')]" for x y
    by (simp add: example_host_def)
  show ?thesis
    by (simp add: example_marked_def
        sp_mark_result [OF example_performance_fields(1,2) lg] example_click_def px_example c)
qed

lemma marked_example:
  "tab example_performance = ''performance'' \<and>
   tab example_marked = tab example_performance \<and>
   selected example_marked = selected example_performance \<and>
   general example_marked = general example_performance \<and>
   localStorage example_marked = localStorage example_performance \<and>
   sessionStorage example_marked = sessionStorage example_performance \<and>
   cookie example_marked = cookie example_performance \<and>
   winHTML example_marked \<noteq> winHTML example_performance"
proof -
  have "winHTML example_marked \<noteq> winHTML example_performance"
    unfolding example_marked_eq
    by (simp add: example_performance_eq)
      (rule render_performance_differs,
        simp_all add: performance_mark_def getEntriesByName_def example_inspected_fields)
  then show ?thesis
    by (simp add: example_marked_eq performance_mark_def example_performance_fields)
qed

lemma symbol_example:
  "inspectElement example_host example_element \<lparr>posX = Some 30, posY = Some 40\<rparr>
      example_symbol_logged =
     Thrown TypeError (example_symbol_logged\<lparr>winLeft := ''30px'', winTop := ''40px''\<rparr>)"
proof -
  have lg: "logs_markup example_host (general example_symbol_logged) = Inl TypeError"
    by (simp add: example_symbol_logged_fields)
  show ?thesis
    by (simp add: inspectElement_throws [OF example_symbol_logged_fields(2) lg] move_panel_def
        px_example)
qed





















section \<open>The claims\<close>

subsection \<open>C1\<close>

text \<open>
  Claim C1. A call of a wrapped channel with a defined payload appends exactly one entry,
  stamped with the clock, to the end of \<^verbatim>\<open>logs.general\<close>; after page code that calls the
  channels with defined payloads while time passes, the payloads logged are those of the
  calls, in call order; and in every session that starts from an ordered log the
  timestamps of the log never decrease.
\<close>

theorem logging_appends_in_call_order:
  "(d \<noteq> Undefined \<longrightarrow>
      general (console_call c d s) = general s @ [\<lparr>ts = clock s, data = d\<rparr>]) \<and>
   ((\<forall>e \<in> set evs. case e of Log c d \<Rightarrow> d \<noteq> Undefined | Tick n \<Rightarrow> True | _ \<Rightarrow> False) \<longrightarrow>
      map data (general (page_run evs s)) = map data (general s) @ [d. Log c d \<leftarrow> evs]) \<and>
   (log_ok s \<longrightarrow> sorted (map ts (general (run h es s))))"
proof (intro conjI impI)
  assume "d \<noteq> Undefined"
  then show "general (console_call c d s) = general s @ [\<lparr>ts = clock s, data = d\<rparr>]"
    by (rule console_call_defined)
next
  assume "\<forall>e \<in> set evs. case e of Log c d \<Rightarrow> d \<noteq> Undefined | Tick n \<Rightarrow> True | _ \<Rightarrow> False"
  then show "map data (general (page_run evs s)) = map data (general s) @ [d. Log c d \<leftarrow> evs]"
    by (rule page_run_calls)
next
  assume "log_ok s"
  then have "log_ok (run h es s)" by (rule run_log_ok)
  then show "sorted (map ts (general (run h es s)))" by (simp add: log_ok_def)
qed

text \<open>The hypotheses of C1 hold, and its conclusions are what they should be, on the
  example session: a call, page code with two calls, and a session with two calls.\<close>

theorem logging_appends_in_call_order_witness:
  "Str ''a'' \<noteq> Undefined \<and>
   general (console_call ChError (Str ''a'') example_session) = [\<lparr>ts = 5, data = Str ''a''\<rparr>] \<and>
   map data (general (page_run [Log ChLog (Str ''a''), Tick 2, Log ChWarn (Num 1)] example_session))
     = [Str ''a'', Num 1] \<and>
   log_ok example_session \<and>
   sorted (map ts (general (run example_host
     [Page (Log ChLog (Str ''a'')), Page (Tick 2), Toggle, Page (Log ChWarn (Num 1))]
     example_session)))"
  using logging_appends_in_call_order [of "Str ''a''" ChError example_session
      "[Log ChLog (Str ''a''), Tick 2, Log ChWarn (Num 1)]" example_host
      "[Page (Log ChLog (Str ''a'')), Page (Tick 2), Toggle, Page (Log ChWarn (Num 1))]"]
  by (simp add: example_defs log_ok_def)

subsection \<open>C2\<close>




subsection \<open>C3\<close>

text \<open>
  Claim C3. While the inspector is inactive, \<^verbatim>\<open>inspectElement\<close> returns and leaves the
  whole state as it is, for every element and position: the selection, the panel and
  all the rest.
\<close>

theorem inspect_inactive_noop:
  "\<not> active s \<Longrightarrow> inspectElement h el pos s = Returned s"
  by (simp add: inspectElement_def)

text \<open>The example session is inactive after the constructor.\<close>

theorem inspect_inactive_noop_witness:
  "\<not> active example_session \<and>
   inspectElement example_host example_element \<lparr>posX = Some 3, posY = Some 4\<rparr> example_session
     = Returned example_session"
proof -
  have inactive: "\<not> active example_session" by (simp add: example_defs)
  show ?thesis using inactive inspect_inactive_noop [OF inactive] by simp
qed

subsection \<open>C4\<close>

text \<open>
  Claim C4. In every state a session reaches from the constructor, the panel is without
  the class \<^verbatim>\<open>off\<close> exactly when the inspector is active, and an element is selected only
  if an earlier event of the session ran \<^verbatim>\<open>inspectElement\<close> to its end while the
  inspector was active.
\<close>

theorem panel_visible_iff_active_selected_after_inspect:
  "(\<not> winOff (run h evs (Inspector_new uuid w))) = active (run h evs (Inspector_new uuid w)) \<and>
   (selected (run h evs (Inspector_new uuid w)) \<noteq> None \<longrightarrow>
      (\<exists>pre e post. evs = pre @ e # post \<and>
         completes_inspect h e (run h pre (Inspector_new uuid w))))"
proof
  have "winOff (Inspector_new uuid w) = (\<not> active (Inspector_new uuid w))"
    by (simp add: Inspector_new_def)
  then show "(\<not> winOff (run h evs (Inspector_new uuid w))) = active (run h evs (Inspector_new uuid w))"
    using run_visible by blast
next
  have "selected (Inspector_new uuid w) = None" by (simp add: Inspector_new_def)
  then show "selected (run h evs (Inspector_new uuid w)) \<noteq> None \<longrightarrow>
      (\<exists>pre e post. evs = pre @ e # post \<and>
         completes_inspect h e (run h pre (Inspector_new uuid w)))"
    using run_selected [of h evs "Inspector_new uuid w"] by blast
qed

text \<open>A session that switches the inspector on and inspects the example element.\<close>

theorem panel_visible_iff_active_selected_after_inspect_witness:
  "selected (run example_host [Toggle, Inspect example_element \<lparr>posX = Some 10, posY = Some 20\<rparr>]
      (Inspector_new ''0'' example_page)) \<noteq> None \<and>
   (\<exists>pre e post.
      [Toggle, Inspect example_element \<lparr>posX = Some 10, posY = Some 20\<rparr>] = pre @ e # post \<and>
      completes_inspect example_host e (run example_host pre (Inspector_new ''0'' example_page))) \<and>
   active (run example_host [Toggle, Inspect example_element \<lparr>posX = Some 10, posY = Some 20\<rparr>]
      (Inspector_new ''0'' example_page)) \<and>
   \<not> winOff (run example_host [Toggle, Inspect example_element \<lparr>posX = Some 10, posY = Some 20\<rparr>]
      (Inspector_new ''0'' example_page))"
proof -
  let ?evs = "[Toggle, Inspect example_element \<lparr>posX = Some 10, posY = Some 20\<rparr>]"
  let ?s0 = "Inspector_new ''0'' example_page"
  have e: "run example_host ?evs ?s0 = example_inspected"
    by (simp add: example_inspected_def example_session_def)
  have act: "active (run example_host ?evs ?s0)"
    unfolding e by (rule example_inspected_fields)
  have sel: "selected (run example_host ?evs ?s0) \<noteq> None"
    unfolding e by (simp add: example_inspected_fields)
  show ?thesis
    using panel_visible_iff_active_selected_after_inspect [of example_host ?evs "''0''" example_page]
      act sel by blast
qed

subsection \<open>C5\<close>

text \<open>
  Claim C5 says that the render is a function of the tab, the selected element, the log
  and the storage. The example session on the performance tab, before and after the
  mark action: the two states agree on the tab, the selected element, the log, both
  storage areas and the cookie, and the markup of the panel differs, since the
  performance tab reads whether a performance entry named \<^verbatim>\<open>ins-mark\<close> exists. And
  with a symbol in the log \<^verbatim>\<open>inspectElement\<close> produces no markup: the template throws a
  \<^verbatim>\<open>TypeError\<close>, after the panel has been moved.
\<close>

theorem render_not_only_tab_and_snapshots:
  "(tab example_performance = ''performance'' \<and>
    tab example_marked = tab example_performance \<and>
    selected example_marked = selected example_performance \<and>
    general example_marked = general example_performance \<and>
    localStorage example_marked = localStorage example_performance \<and>
    sessionStorage example_marked = sessionStorage example_performance \<and>
    cookie example_marked = cookie example_performance \<and>
    winHTML example_marked \<noteq> winHTML example_performance) \<and>
   inspectElement example_host example_element \<lparr>posX = Some 30, posY = Some 40\<rparr>
      example_symbol_logged =
     Thrown TypeError (example_symbol_logged\<lparr>winLeft := ''30px'', winTop := ''40px''\<rparr>)"
  using marked_example symbol_example by (rule conjI)

text \<open>
  Claim C5, amended. While the inspector is active and every logged payload has a text,
  \<^verbatim>\<open>inspectElement\<close> returns, and the markup it assigns is the common head followed by the
  markup of the tab, made from the element, the text of the computed style the page
  gives the element at that moment, and the text of the log. That markup is the same in
  two states that agree on the tab, both storage areas, the cookie, the id of the
  session, the side mode attribute of the panel and on whether a performance entry
  named \<^verbatim>\<open>ins-mark\<close> exists. Each of the four tabs selects its own view, and the tab of
  every state a session reaches is one of the four.
\<close>

theorem render_is_function_of_tab_and_snapshots:
  "(active s \<and> renderable s \<longrightarrow>
      (\<exists>lg s'. logs_markup h (general s) = Inr lg \<and>
         inspectElement h el pos s = Returned s' \<and>
         winHTML s' =
           panel_head s el @
           tab_markup h s el (style_text (computedStyle h (move_panel h pos s) el)) lg)) \<and>
   (sid t = sid s \<and> winSideMode t = winSideMode s \<and> tab t = tab s \<and>
    localStorage t = localStorage s \<and> sessionStorage t = sessionStorage s \<and>
    cookie t = cookie s \<and>
    (getEntriesByName ''ins-mark'' (timeline t) = []) =
      (getEntriesByName ''ins-mark'' (timeline s) = []) \<longrightarrow>
      render h t el st lg = render h s el st lg) \<and>
   (tab s = ''display'' \<longrightarrow> tab_markup h s el st lg = display_tab h s el st) \<and>
   (tab s = ''console'' \<longrightarrow> tab_markup h s el st lg = console_tab s lg) \<and>
   (tab s = ''storage'' \<longrightarrow> tab_markup h s el st lg = storage_tab h s) \<and>
   (tab s = ''performance'' \<longrightarrow> tab_markup h s el st lg = performance_tab s) \<and>
   valid_tab (tab (run h evs (Inspector_new uuid w)))"
proof (intro conjI impI)
  assume a: "active s \<and> renderable s"
  then obtain lg where lg: "logs_markup h (general s) = Inr lg"
    using renderable_markup by blast
  with a have "inspectElement h el pos s =
       Returned (s\<lparr>winLeft := style_assign h (posX pos) (winLeft s),
         winTop := style_assign h (posY pos) (winTop s),
         winHTML := render h s el (style_text (computedStyle h (move_panel h pos s) el)) lg,
         selected := Some el\<rparr>)"
    by (simp add: inspectElement_active_eq)
  with lg show "\<exists>lg s'. logs_markup h (general s) = Inr lg \<and>
         inspectElement h el pos s = Returned s' \<and>
         winHTML s' =
           panel_head s el @
           tab_markup h s el (style_text (computedStyle h (move_panel h pos s) el)) lg"
    by (simp add: render_def)
next
  assume "sid t = sid s \<and> winSideMode t = winSideMode s \<and> tab t = tab s \<and>
    localStorage t = localStorage s \<and> sessionStorage t = sessionStorage s \<and>
    cookie t = cookie s \<and>
    (getEntriesByName ''ins-mark'' (timeline t) = []) =
      (getEntriesByName ''ins-mark'' (timeline s) = [])"
  then show "render h t el st lg = render h s el st lg"
    by (intro render_cong) simp_all
next
  have "valid_tab (tab (Inspector_new uuid w))"
    by (simp add: Inspector_new_def valid_tab_def)
  then show "valid_tab (tab (run h evs (Inspector_new uuid w)))" by (rule run_valid_tab)
qed (simp_all add: tab_markup_def)

text \<open>On the example session switched on: the display tab, the same markup after time
  has passed, and the performance tab.\<close>

theorem render_is_function_of_tab_and_snapshots_witness:
  "active example_inspected \<and> renderable example_inspected \<and>
   tab example_inspected = ''display'' \<and>
   (\<exists>s'. inspectElement example_host example_element \<lparr>posX = Some 1, posY = Some 2\<rparr>
        example_inspected = Returned s' \<and>
      winHTML s' =
        panel_head example_inspected example_element @
        display_tab example_host example_inspected example_element
          (style_text (computedStyle example_host
             (move_panel example_host \<lparr>posX = Some 1, posY = Some 2\<rparr> example_inspected)
             example_element))) \<and>
   render example_host (tick 3 example_inspected) example_element [] [] =
     render example_host example_inspected example_element [] [] \<and>
   tab example_performance = ''performance'' \<and>
   tab_markup example_host example_performance example_element [] [] =
     performance_tab example_performance"
proof -
  let ?s = example_inspected
  let ?pos = "\<lparr>posX = Some 1, posY = Some 2\<rparr>"
  let ?st = "style_text (computedStyle example_host (move_panel example_host ?pos ?s) example_element)"
  note a = render_is_function_of_tab_and_snapshots [of ?s example_host example_element ?pos
      "tick 3 ?s" ?st "[]"]
  note a' = render_is_function_of_tab_and_snapshots [of ?s example_host example_element ?pos
      "tick 3 ?s" "[]" "[]"]
  note b = render_is_function_of_tab_and_snapshots [of example_performance example_host
      example_element ?pos example_performance "[]" "[]"]
  have lg: "logs_markup example_host (general ?s) = Inr []"
    by (simp add: example_inspected_fields)
  from a example_inspected_fields(2) example_inspected_renderable
  obtain lg' s' where "logs_markup example_host (general ?s) = Inr lg'"
    and r: "inspectElement example_host example_element ?pos ?s = Returned s'"
    and "winHTML s' = panel_head ?s example_element @ tab_markup example_host ?s example_element ?st lg'"
    by blast
  then have w: "winHTML s' = panel_head ?s example_element @ tab_markup example_host ?s example_element ?st []"
    using lg by simp
  from a example_inspected_fields(7)
  have "tab_markup example_host ?s example_element ?st [] = display_tab example_host ?s example_element ?st"
    by blast
  with w r have 1: "\<exists>s'. inspectElement example_host example_element ?pos ?s = Returned s' \<and>
      winHTML s' = panel_head ?s example_element @ display_tab example_host ?s example_element ?st"
    by simp
  have agree: "sid (tick 3 ?s) = sid ?s \<and> winSideMode (tick 3 ?s) = winSideMode ?s \<and>
      tab (tick 3 ?s) = tab ?s \<and> localStorage (tick 3 ?s) = localStorage ?s \<and>
      sessionStorage (tick 3 ?s) = sessionStorage ?s \<and> cookie (tick 3 ?s) = cookie ?s \<and>
      (getEntriesByName ''ins-mark'' (timeline (tick 3 ?s)) = []) =
        (getEntriesByName ''ins-mark'' (timeline ?s) = [])"
    by (simp add: tick_def)
  from a' agree have 2: "render example_host (tick 3 ?s) example_element [] [] =
      render example_host ?s example_element [] []"
    by blast
  from b example_performance_fields(5)
  have 3: "tab_markup example_host example_performance example_element [] [] =
      performance_tab example_performance"
    by blast
  show ?thesis
    using example_inspected_fields(2,7) example_inspected_renderable 1 2 3
      example_performance_fields(5)
    by blast
qed

subsection \<open>C6\<close>

text \<open>
  Claim C6 says that \<^verbatim>\<open>sp\<close> with an unrecognized tag changes no state and surfaces
  nothing. The button Refresh passes the tag \<^verbatim>\<open>reload\<close>, which no case of the switch
  recognizes; on the example session with an element inspected at (10, 20), a click at
  (30, 40) moves the panel, and with a symbol in the log the same click throws a
  \<^verbatim>\<open>TypeError\<close> after the panel has been moved.
\<close>

theorem unknown_tag_moves_panel:
  "(sp example_host example_click ''reload'' example_inspected \<noteq> Returned example_inspected \<and>
    winLeft example_inspected = ''10px'' \<and>
    winLeft (state_of (sp example_host example_click ''reload'' example_inspected)) = ''30px'') \<and>
   sp example_host example_click ''reload'' example_symbol_logged =
     Thrown TypeError (example_symbol_logged\<lparr>winLeft := ''30px'', winTop := ''40px''\<rparr>)"
proof -
  have l: "winLeft (state_of (sp example_host example_click ''reload'' example_inspected)) = ''30px''"
    by (simp add: sp_reload_example)
  have r: "winLeft example_inspected = ''10px''" by (rule example_inspected_fields)
  have "sp example_host example_click ''reload'' example_inspected \<noteq> Returned example_inspected"
  proof
    assume "sp example_host example_click ''reload'' example_inspected = Returned example_inspected"
    then have "winLeft (state_of (sp example_host example_click ''reload'' example_inspected)) = ''10px''"
      using r by simp
    with l show False by simp
  qed
  with l r sp_reload_symbol_example show ?thesis by simp
qed

text \<open>
  Claim C6, amended. \<^verbatim>\<open>sp\<close> with an unrecognized tag does what \<^verbatim>\<open>inspectElement\<close> does on
  the selected element, if there is one. Without a selection or while inactive it
  returns and leaves the state as it is. With a selection and active, it positions the
  panel at the event; then, if every logged payload has a text, it renders the panel
  again from the selected element and returns, and otherwise it throws a \<^verbatim>\<open>TypeError\<close>.
  In every case nothing but the position and the markup of the panel changes.
\<close>

theorem unknown_tag_only_rerenders:
  assumes "n \<notin> {''sideMode'', ''display'', ''console'', ''storage'', ''performance'', ''runjs'',
      ''mark'', ''stamp''}"
  shows "sp h ev n s =
       (case selected s of
          None \<Rightarrow> Returned s
        | Some e \<Rightarrow> inspectElement h e (event_position ev) s) \<and>
     (selected s = None \<or> \<not> active s \<longrightarrow> sp h ev n s = Returned s) \<and>
     (\<forall>e. selected s = Some e \<and> active s \<and> renderable s \<longrightarrow>
        (\<exists>lg. logs_markup h (general s) = Inr lg \<and>
           sp h ev n s =
             Returned (s\<lparr>winLeft := style_assign h (pageX ev) (winLeft s),
               winTop := style_assign h (pageY ev) (winTop s),
               winHTML := render h s e
                 (style_text (computedStyle h (move_panel h (event_position ev) s) e)) lg\<rparr>))) \<and>
     (selected s \<noteq> None \<and> active s \<and> \<not> renderable s \<longrightarrow>
        sp h ev n s =
          Thrown TypeError (s\<lparr>winLeft := style_assign h (pageX ev) (winLeft s),
            winTop := style_assign h (pageY ev) (winTop s)\<rparr>)) \<and>
     (\<exists>l t m. state_of (sp h ev n s) = s\<lparr>winLeft := l, winTop := t, winHTML := m\<rparr>)"
proof (intro conjI allI impI)
  show eq: "sp h ev n s =
       (case selected s of
          None \<Rightarrow> Returned s
        | Some e \<Rightarrow> inspectElement h e (event_position ev) s)"
    using assms by (rule sp_unknown)
  {
    assume "selected s = None \<or> \<not> active s"
    then show "sp h ev n s = Returned s"
      using eq by (cases "selected s") (auto simp: inspectElement_inactive)
  next
    fix e
    assume a: "selected s = Some e \<and> active s \<and> renderable s"
    then obtain lg where lg: "logs_markup h (general s) = Inr lg"
      using renderable_markup by blast
    have "sp h ev n s = inspectElement h e (event_position ev) s"
      using eq a by simp
    also have "\<dots> = Returned (s\<lparr>winLeft := style_assign h (pageX ev) (winLeft s),
               winTop := style_assign h (pageY ev) (winTop s),
               winHTML := render h s e
                 (style_text (computedStyle h (move_panel h (event_position ev) s) e)) lg,
               selected := Some e\<rparr>)"
      using a lg by (simp add: inspectElement_active_eq) (simp add: event_position_def)
    finally show "\<exists>lg. logs_markup h (general s) = Inr lg \<and>
           sp h ev n s =
             Returned (s\<lparr>winLeft := style_assign h (pageX ev) (winLeft s),
               winTop := style_assign h (pageY ev) (winTop s),
               winHTML := render h s e
                 (style_text (computedStyle h (move_panel h (event_position ev) s) e)) lg\<rparr>)"
      using a lg by (simp add: reselect)
  next
    assume a: "selected s \<noteq> None \<and> active s \<and> \<not> renderable s"
    then obtain e where e: "selected s = Some e" by blast
    have "logs_markup h (general s) = Inl TypeError"
      using a by (simp add: unrenderable_markup)
    then have "inspectElement h e (event_position ev) s =
        Thrown TypeError (move_panel h (event_position ev) s)"
      using a by (simp add: inspectElement_throws)
    then show "sp h ev n s =
          Thrown TypeError (s\<lparr>winLeft := style_assign h (pageX ev) (winLeft s),
            winTop := style_assign h (pageY ev) (winTop s)\<rparr>)"
      using eq e by (simp add: move_panel_def event_position_def)
  next
    show "\<exists>l t m. state_of (sp h ev n s) = s\<lparr>winLeft := l, winTop := t, winHTML := m\<rparr>"
    proof (cases "selected s")
      case None
      then have "state_of (sp h ev n s) =
          s\<lparr>winLeft := winLeft s, winTop := winTop s, winHTML := winHTML s\<rparr>"
        using eq by simp
      then show ?thesis by blast
    next
      case (Some e)
      then have "state_of (sp h ev n s) = state_of (inspectElement h e (event_position ev) s)"
        using eq by simp
      then show ?thesis
        using inspectElement_touches_panel [of h e "event_position ev" s] Some
        by (auto simp: reselect)
    qed
  }
qed

text \<open>The tag \<^verbatim>\<open>reload\<close> on the example session: before an element is inspected, after,
  and after a symbol has been logged.\<close>

theorem unknown_tag_only_rerenders_witness:
  "''reload'' \<notin> {''sideMode'', ''display'', ''console'', ''storage'', ''performance'', ''runjs'',
      ''mark'', ''stamp''} \<and>
   sp example_host example_click ''reload'' example_session = Returned example_session \<and>
   renderable example_inspected \<and>
   sp example_host example_click ''reload'' example_inspected =
     Returned (example_inspected\<lparr>winLeft := ''30px'', winTop := ''40px'',
       winHTML := render example_host example_inspected example_element
         (style_text (computedStyle example_host
            (move_panel example_host (event_position example_click) example_inspected)
            example_element)) []\<rparr>) \<and>
   selected example_symbol_logged \<noteq> None \<and> active example_symbol_logged \<and>
   \<not> renderable example_symbol_logged \<and>
   sp example_host example_click ''reload'' example_symbol_logged =
     Thrown TypeError (example_symbol_logged
       \<lparr>winLeft := style_assign example_host (pageX example_click) (winLeft example_symbol_logged),
        winTop := style_assign example_host (pageY example_click) (winTop example_symbol_logged)\<rparr>)"
proof -
  have tag: "''reload'' \<notin> {''sideMode'', ''display'', ''console'', ''storage'', ''performance'',
      ''runjs'', ''mark'', ''stamp''}"
    by simp
  have none: "selected example_session = None" by (simp add: example_defs)
  have px: "style_assign example_host (pageX example_click) (winLeft example_inspected) = ''30px''"
    "style_assign example_host (pageY example_click) (winTop example_inspected) = ''40px''"
    by (simp_all add: example_click_def px_example)
  have lg: "logs_markup example_host (general example_inspected) = Inr []"
    by (simp add: example_inspected_fields)
  from unknown_tag_only_rerenders [OF tag, of example_host example_click example_session] none
  have 1: "sp example_host example_click ''reload'' example_session = Returned example_session"
    by blast
  from unknown_tag_only_rerenders [OF tag, of example_host example_click example_inspected]
    example_inspected_fields(1,2) example_inspected_renderable
  obtain lg' where "logs_markup example_host (general example_inspected) = Inr lg'"
    and "sp example_host example_click ''reload'' example_inspected =
      Returned (example_inspected
        \<lparr>winLeft := style_assign example_host (pageX example_click) (winLeft example_inspected),
         winTop := style_assign example_host (pageY example_click) (winTop example_inspected),
         winHTML := render example_host example_inspected example_element
           (style_text (computedStyle example_host
              (move_panel example_host (event_position example_click) example_inspected)
              example_element)) lg'\<rparr>)"
    by blast
  then have 2: "sp example_host example_click ''reload'' example_inspected =
     Returned (example_inspected\<lparr>winLeft := ''30px'', winTop := ''40px'',
       winHTML := render example_host example_inspected example_element
         (style_text (computedStyle example_host
            (move_panel example_host (event_position example_click) example_inspected)
            example_element)) []\<rparr>)"
    using lg px by simp
  have sym: "selected example_symbol_logged \<noteq> None \<and> active example_symbol_logged \<and>
      \<not> renderable example_symbol_logged"
    by (simp add: example_symbol_logged_fields example_symbol_logged_unrenderable)
  note t = unknown_tag_only_rerenders [OF tag, of example_host example_click example_symbol_logged]
  from t [THEN conjunct2, THEN conjunct2, THEN conjunct2, THEN conjunct1] sym
  have 3: "sp example_host example_click ''reload'' example_symbol_logged =
     Thrown TypeError (example_symbol_logged
       \<lparr>winLeft := style_assign example_host (pageX example_click) (winLeft example_symbol_logged),
        winTop := style_assign example_host (pageY example_click) (winTop example_symbol_logged)\<rparr>)"
    by (rule mp)
  show ?thesis using tag 1 2 3 sym example_inspected_renderable by (intro conjI) simp_all
qed

subsection \<open>C7\<close>

text \<open>
  Claim C7 says that every call is forwarded to the original channel. The guard comes
  first in each wrapper: a call with an undefined payload does not reach the original
  channel.
\<close>

theorem undefined_payload_not_forwarded:
  "consoleOut (console_call ChLog Undefined example_session)
     \<noteq> consoleOut example_session @ [(ChLog, Undefined)]"
  by (simp add: console_log_def)

text \<open>
  Claim C7, amended. A call with a defined payload is forwarded to the original channel
  and logged; a call with an undefined payload changes nothing: it is neither forwarded
  nor logged.
\<close>

theorem defined_payload_forwarded_undefined_dropped:
  "(d \<noteq> Undefined \<longrightarrow>
      consoleOut (console_call c d s) = consoleOut s @ [(c, d)] \<and>
      general (console_call c d s) = general s @ [\<lparr>ts = clock s, data = d\<rparr>]) \<and>
   console_call c Undefined s = s"
  by (cases c) (simp_all add: log_defs)

text \<open>A warning with payload 7 on the example session, and one without payload.\<close>

theorem defined_payload_forwarded_undefined_dropped_witness:
  "Num 7 \<noteq> Undefined \<and>
   consoleOut (console_call ChWarn (Num 7) example_session) = [(ChWarn, Num 7)] \<and>
   general (console_call ChWarn (Num 7) example_session) = [\<lparr>ts = 5, data = Num 7\<rparr>] \<and>
   console_call ChWarn Undefined example_session = example_session"
  using defined_payload_forwarded_undefined_dropped [of "Num 7" ChWarn example_session]
  by (simp add: example_defs)

subsection \<open>C8\<close>




subsection \<open>C9\<close>

text \<open>
  Claim C9. Two calls of \<^verbatim>\<open>toggle\<close> restore \<^verbatim>\<open>active\<close>, the class \<^verbatim>\<open>off\<close> of the panel,
  the inspect mode marker of the document root (whether \<^verbatim>\<open>data-mode\<close> is \<^verbatim>\<open>inspect\<close>) and
  both side mode attributes, in every state and so in the initial one; when the root had
  no \<^verbatim>\<open>data-mode\<close> attribute or had the marker, the whole state is restored. One call
  does change the initial state.
\<close>

theorem toggle_twice_restores:
  "active (toggle (toggle s)) = active s \<and>
   winOff (toggle (toggle s)) = winOff s \<and>
   (rootDataMode (toggle (toggle s)) = Some ''inspect'') = (rootDataMode s = Some ''inspect'') \<and>
   rootSideMode (toggle (toggle s)) = rootSideMode s \<and>
   winSideMode (toggle (toggle s)) = winSideMode s \<and>
   (rootDataMode s = None \<or> rootDataMode s = Some ''inspect'' \<longrightarrow> toggle (toggle s) = s) \<and>
   toggle (Inspector_new uuid w) \<noteq> Inspector_new uuid w"
  by (auto simp: toggle_def Inspector_new_def dest: arg_cong [where f = active])

text \<open>The document root of the example page has no \<^verbatim>\<open>data-mode\<close> attribute.\<close>

theorem toggle_twice_restores_witness:
  "rootDataMode example_session = None \<and>
   toggle (toggle example_session) = example_session \<and>
   active (toggle example_session) \<and> \<not> winOff (toggle example_session) \<and>
   rootDataMode (toggle example_session) = Some ''inspect''"
  using toggle_twice_restores [of example_session]
  by (simp add: example_defs) (simp add: toggle_def)

subsection \<open>C10\<close>

text \<open>
  Claim C10. With an element selected, whenever \<^verbatim>\<open>sp\<close> with the tag \<^verbatim>\<open>stamp\<close> returns,
  the tab is \<^verbatim>\<open>console\<close>. With a mark named \<^verbatim>\<open>ins-mark\<close> on the timeline the tab is
  \<^verbatim>\<open>console\<close> in the state the call leaves, also when the render that follows the
  assignment throws, and the call returns when the inspector is inactive or every
  logged payload has a text. Without such a mark \<^verbatim>\<open>performance.measure\<close> throws, after
  the end mark has been placed and before the tab is assigned.
\<close>

theorem stamp_switches_to_console:
  "selected s = Some e \<Longrightarrow>
     (\<forall>s'. sp h ev ''stamp'' s = Returned s' \<longrightarrow> tab s' = ''console'') \<and>
     (mark_time ''ins-mark'' (timeline s) \<noteq> None \<longrightarrow>
        tab (state_of (sp h ev ''stamp'' s)) = ''console'' \<and>
        (\<not> active s \<or> renderable s \<longrightarrow> (\<exists>s'. sp h ev ''stamp'' s = Returned s'))) \<and>
     (mark_time ''ins-mark'' (timeline s) = None \<longrightarrow>
        sp h ev ''stamp'' s = Thrown SyntaxError (performance_mark ''ins-end-mark'' s))"
proof (intro conjI allI impI)
  fix s'
  assume sel: "selected s = Some e" and ret: "sp h ev ''stamp'' s = Returned s'"
  then obtain s'' where st: "stamp h s = Returned s''"
      and "inspectElement h e (event_position ev) s'' = Returned s'"
    by (cases "stamp h s") (simp_all add: sp_stamp)
  then have "tab s' = tab s''"
    using inspectElement_frame [of h e "event_position ev" s''] by simp
  then show "tab s' = ''console''" using st by (simp add: stamp_returned_tab)
next
  assume sel: "selected s = Some e" and m: "mark_time ''ins-mark'' (timeline s) \<noteq> None"
  then obtain s'' where st: "stamp h s = Returned s''"
    using stamp_with_mark by blast
  then have "state_of (sp h ev ''stamp'' s) = state_of (inspectElement h e (event_position ev) s'')"
    using sel by (simp add: sp_stamp)
  then show "tab (state_of (sp h ev ''stamp'' s)) = ''console''"
    using st by (simp add: inspectElement_frame stamp_returned_tab)
next
  assume sel: "selected s = Some e" and m: "mark_time ''ins-mark'' (timeline s) \<noteq> None"
    and ok: "\<not> active s \<or> renderable s"
  then obtain s'' where st: "stamp h s = Returned s''"
    using stamp_with_mark by blast
  then have k: "renderable s'' = renderable s" "active s'' = active s"
    using stamp_keeps_renderable by blast+
  have "\<exists>s'. inspectElement h e (event_position ev) s'' = Returned s'"
  proof (cases "active s''")
    case False
    then show ?thesis by (simp add: inspectElement_inactive)
  next
    case True
    with ok k have "renderable s''" by simp
    then obtain lg where "logs_markup h (general s'') = Inr lg"
      using renderable_markup by blast
    then show ?thesis using True by (simp add: inspectElement_renders)
  qed
  then show "\<exists>s'. sp h ev ''stamp'' s = Returned s'"
    using sel st by (simp add: sp_stamp)
next
  assume "selected s = Some e" and "mark_time ''ins-mark'' (timeline s) = None"
  then show "sp h ev ''stamp'' s = Thrown SyntaxError (performance_mark ''ins-end-mark'' s)"
    by (simp add: sp_stamp stamp_without_mark)
qed

text \<open>On the example session with the example element inspected: a stamp without a
  mark, a stamp after a mark, and a stamp after a mark with a symbol in the log.\<close>

theorem stamp_switches_to_console_witness:
  "selected example_inspected = Some example_element \<and>
   mark_time ''ins-mark'' (timeline example_inspected) = None \<and>
   sp example_host \<lparr>targetValue = [], pageX = Some 1, pageY = Some 1\<rparr> ''stamp'' example_inspected
     = Thrown SyntaxError (performance_mark ''ins-end-mark'' example_inspected) \<and>
   renderable (performance_mark ''ins-mark'' example_inspected) \<and>
   (\<exists>s'. sp example_host \<lparr>targetValue = [], pageX = Some 1, pageY = Some 1\<rparr> ''stamp''
       (performance_mark ''ins-mark'' example_inspected) = Returned s' \<and> tab s' = ''console'') \<and>
   \<not> renderable (performance_mark ''ins-mark'' example_symbol_logged) \<and>
   tab (state_of (sp example_host \<lparr>targetValue = [], pageX = Some 1, pageY = Some 1\<rparr> ''stamp''
       (performance_mark ''ins-mark'' example_symbol_logged))) = ''console''"
proof -
  let ?ev = "\<lparr>targetValue = [], pageX = Some 1, pageY = Some 1\<rparr>"
  let ?s = "performance_mark ''ins-mark'' example_inspected"
  let ?t = "performance_mark ''ins-mark'' example_symbol_logged"
  have sel: "selected example_inspected = Some example_element"
    by (rule example_inspected_fields)
  have sel': "selected ?s = Some example_element"
    using sel by (simp add: performance_mark_def)
  have sel'': "selected ?t = Some example_element"
    by (simp add: performance_mark_def example_symbol_logged_fields)
  have none: "mark_time ''ins-mark'' (timeline example_inspected) = None"
    by (simp add: example_inspected_fields mark_time_def)
  have some: "mark_time ''ins-mark'' (timeline ?s) \<noteq> None"
    by (simp add: performance_mark_def mark_time_simps)
  have some': "mark_time ''ins-mark'' (timeline ?t) \<noteq> None"
    by (simp add: performance_mark_def mark_time_simps)
  have r: "renderable ?s"
    using example_inspected_renderable by (simp add: renderable_def performance_mark_def)
  have nr: "\<not> renderable ?t"
    using example_symbol_logged_unrenderable by (simp add: renderable_def performance_mark_def)
  show ?thesis
    using stamp_switches_to_console [OF sel, of example_host ?ev]
      stamp_switches_to_console [OF sel', of example_host ?ev]
      stamp_switches_to_console [OF sel'', of example_host ?ev] sel none some some' r nr
    by blast
qed

end
